theory Spec2Isabelle
  imports Main
begin

section \<open>The structural-tag AST (structural\_tag.h as used by structural\_tag.cc)\<close>

text \<open>
  \<open>Format\<close> is the tagged union of the eleven format variants. The fields are the ones
  the sources read and write: \<open>detected_end_strs_\<close> (AnyText, TriggeredTags,
  TagsWithSeparator) and \<open>is_unlimited_\<close> (Sequence, Or) are the annotation fields the
  analyzer fills. \<open>TriggeredTagsFormat\<close> and \<open>TagsWithSeparatorFormat\<close> hold a vector
  of \<open>TagFormat\<close>, a Tag owns its content, hence the mutual recursion.

  Field order:
  \<^item> \<open>AnyTextFormat excluded_strs detected_end_strs_\<close>
  \<^item> \<open>RegexFormat pattern excluded_strs\<close>
  \<^item> \<open>SequenceFormat elements is_unlimited_\<close>, \<open>OrFormat elements is_unlimited_\<close>
  \<^item> \<open>TriggeredTagsFormat triggers tags excludes detected_end_strs_ at_least_one stop_after_first\<close>
  \<^item> \<open>TagsWithSeparatorFormat tags separator detected_end_strs_ at_least_one stop_after_first\<close>
  \<^item> \<open>TagFormat begin content end\<close>
\<close>

datatype Format =
    ConstStringFormat string
  | JSONSchemaFormat string
  | QwenXmlParameterFormat string
  | AnyTextFormat "string list" "string list"
  | GrammarFormat string
  | RegexFormat string "string list"
  | SequenceFormat "Format list" bool
  | OrFormat "Format list" bool
  | TagFmt TagFormat
  | TriggeredTagsFormat "string list" "TagFormat list" "string list" "string list" bool bool
  | TagsWithSeparatorFormat "TagFormat list" string "string list" bool bool
and TagFormat =
    TagFormat (tag_begin: string) (tag_content: Format) (tag_end: "string list")

text \<open>
  \<open>InvalidStructuralTagError\<close> carries the message of the source.
  \<open>RecursionDepthExceeded\<close> is the failure of the recursion guard, and
  \<open>UndefinedBehaviour\<close> marks the one place where the source reads a vector out of
  range (an empty Sequence in the analyzer; the parser never builds one).
  \<open>CheckFailed\<close> is a failed \<open>XGRAMMAR_DCHECK\<close>, which aborts with its message.
\<close>

datatype ISTError =
    ISTError string
  | RecursionDepthExceeded
  | UndefinedBehaviour
  | CheckFailed string

section \<open>StructuralTagAnalyzer\<close>

text \<open>
  The ancestor stack \<open>stack_\<close>: the head of the list is \<open>stack_.back()\<close>. An entry is
  the format as it was when it was pushed. The only field \<open>DetectEndStrings\<close> reads from
  the stack is \<open>end\<close> of a Tag, and a Tag's \<open>end\<close> is cleared only after its content has
  been visited, as the last step of its own visit, so the value pushed is the value read.
\<close>

fun DetectEndStrings :: "Format list \<Rightarrow> string list" where
  "DetectEndStrings [] = []"
| "DetectEndStrings (TagFmt t # stack) = tag_end t"
| "DetectEndStrings (f # stack) = DetectEndStrings stack"

fun IsUnlimited :: "Format \<Rightarrow> bool" where
  "IsUnlimited (AnyTextFormat ex det) = True"
| "IsUnlimited (TriggeredTagsFormat trg tags ex det alo saf) = True"
| "IsUnlimited (TagsWithSeparatorFormat tags sep det alo saf) = True"
| "IsUnlimited (SequenceFormat es u) = u"
| "IsUnlimited (OrFormat es u) = u"
| "IsUnlimited f = False"

text \<open>\<open>std::to_string\<close> of a non-negative integer.\<close>

definition digit_char :: "nat \<Rightarrow> char" where
  "digit_char n = char_of (48 + n)"

function to_string :: "nat \<Rightarrow> string" where
  "to_string n = (if n < 10 then [digit_char n] else to_string (n div 10) @ [digit_char (n mod 10)])"
  by pat_completeness auto
termination
  by (relation "measure id") auto

definition has_non_empty :: "string list \<Rightarrow> bool" where
  "has_non_empty ends = (\<exists>end_str \<in> set ends. end_str \<noteq> [])"

text \<open>
  \<open>Visit d stack f\<close> is \<open>Visit(FormatPtrVariant)\<close>: the recursion guard (\<open>d\<close> is the
  number of levels still allowed), the push onto the stack, and the dispatch to
  \<open>VisitSub\<close>. The source mutates the AST in place; the model returns the annotated
  copy. \<open>VisitTag\<close> is the same entry point for a \<open>TagFormat*\<close>, as the tag loops of
  TriggeredTags and TagsWithSeparator call it.

  The Sequence loop carries the index \<open>i\<close> of the error message; the Or loop carries
  \<open>is_any_unlimited\<close> and \<open>is_all_unlimited\<close>.
\<close>

function (sequential) Visit :: "nat \<Rightarrow> Format list \<Rightarrow> Format \<Rightarrow> ISTError + Format"
and VisitTag :: "nat \<Rightarrow> Format list \<Rightarrow> TagFormat \<Rightarrow> ISTError + TagFormat"
and VisitSub_Tag :: "nat \<Rightarrow> Format list \<Rightarrow> TagFormat \<Rightarrow> ISTError + TagFormat"
and VisitSub_SequenceElements ::
  "nat \<Rightarrow> Format list \<Rightarrow> nat \<Rightarrow> Format list \<Rightarrow> ISTError + (Format list \<times> bool)"
and VisitSub_OrElements ::
  "nat \<Rightarrow> Format list \<Rightarrow> bool \<Rightarrow> bool \<Rightarrow> Format list \<Rightarrow> ISTError + (Format list \<times> bool \<times> bool)"
and VisitTags :: "nat \<Rightarrow> Format list \<Rightarrow> TagFormat list \<Rightarrow> ISTError + TagFormat list"
where
  "Visit 0 stack f = Inl RecursionDepthExceeded"
| "Visit (Suc d) stack (ConstStringFormat v) = Inr (ConstStringFormat v)"
| "Visit (Suc d) stack (JSONSchemaFormat s) = Inr (JSONSchemaFormat s)"
| "Visit (Suc d) stack (QwenXmlParameterFormat s) = Inr (QwenXmlParameterFormat s)"
| "Visit (Suc d) stack (AnyTextFormat ex det) =
     Inr (AnyTextFormat ex (DetectEndStrings (AnyTextFormat ex det # stack)))"
| "Visit (Suc d) stack (GrammarFormat g) = Inr (GrammarFormat g)"
| "Visit (Suc d) stack (RegexFormat p ex) = Inr (RegexFormat p ex)"
| "Visit (Suc d) stack (SequenceFormat es u) =
     (case VisitSub_SequenceElements d (SequenceFormat es u # stack) 0 es of
        Inl err \<Rightarrow> Inl err
      | Inr (es', u') \<Rightarrow> Inr (SequenceFormat es' u'))"
| "Visit (Suc d) stack (OrFormat es u) =
     (case VisitSub_OrElements d (OrFormat es u # stack) False True es of
        Inl err \<Rightarrow> Inl err
      | Inr (es', is_any_unlimited, is_all_unlimited) \<Rightarrow>
          if is_any_unlimited \<and> \<not> is_all_unlimited
          then Inl (ISTError (''Now we only support all elements in an or format to be unlimited or all limited, but the ''
                 @ ''or format has both unlimited and limited elements''))
          else Inr (OrFormat es' is_any_unlimited))"
| "Visit (Suc d) stack (TagFmt t) =
     (case VisitSub_Tag d (TagFmt t # stack) t of
        Inl err \<Rightarrow> Inl err
      | Inr t' \<Rightarrow> Inr (TagFmt t'))"
| "Visit (Suc d) stack (TriggeredTagsFormat trg tags ex det alo saf) =
     (case VisitTags d (TriggeredTagsFormat trg tags ex det alo saf # stack) tags of
        Inl err \<Rightarrow> Inl err
      | Inr tags' \<Rightarrow>
          Inr (TriggeredTagsFormat trg tags' ex
                 (DetectEndStrings (TriggeredTagsFormat trg tags ex det alo saf # stack)) alo saf))"
| "Visit (Suc d) stack (TagsWithSeparatorFormat tags sep det alo saf) =
     (case VisitTags d (TagsWithSeparatorFormat tags sep det alo saf # stack) tags of
        Inl err \<Rightarrow> Inl err
      | Inr tags' \<Rightarrow>
          Inr (TagsWithSeparatorFormat tags' sep
                 (DetectEndStrings (TagsWithSeparatorFormat tags sep det alo saf # stack)) alo saf))"
| "VisitTag 0 stack t = Inl RecursionDepthExceeded"
| "VisitTag (Suc d) stack t = VisitSub_Tag d (TagFmt t # stack) t"
| "VisitSub_Tag d stack (TagFormat b c e) =
     (case Visit d stack c of
        Inl err \<Rightarrow> Inl err
      | Inr c' \<Rightarrow>
          if IsUnlimited c' then
            (if \<not> has_non_empty e
             then Inl (ISTError ''When the content is unlimited, at least one end string must be non-empty'')
             else Inr (TagFormat b c' []))
          else Inr (TagFormat b c' e))"
| "VisitSub_SequenceElements d stack i [] = Inl UndefinedBehaviour"
| "VisitSub_SequenceElements d stack i [element] =
     (case Visit d stack element of
        Inl err \<Rightarrow> Inl err
      | Inr element' \<Rightarrow> Inr ([element'], IsUnlimited element'))"
| "VisitSub_SequenceElements d stack i (element # next # rest) =
     (case Visit d stack element of
        Inl err \<Rightarrow> Inl err
      | Inr element' \<Rightarrow>
          if IsUnlimited element'
          then Inl (ISTError (''Only the last element in a sequence can be unlimited, but the '' @ to_string i
                 @ ''th element of sequence format is unlimited''))
          else (case VisitSub_SequenceElements d stack (Suc i) (next # rest) of
                  Inl err \<Rightarrow> Inl err
                | Inr (es', u') \<Rightarrow> Inr (element' # es', u')))"
| "VisitSub_OrElements d stack is_any_unlimited is_all_unlimited [] =
     Inr ([], is_any_unlimited, is_all_unlimited)"
| "VisitSub_OrElements d stack is_any_unlimited is_all_unlimited (element # rest) =
     (case Visit d stack element of
        Inl err \<Rightarrow> Inl err
      | Inr element' \<Rightarrow>
          (case VisitSub_OrElements d stack
                  (is_any_unlimited \<or> IsUnlimited element')
                  (is_all_unlimited \<and> IsUnlimited element') rest of
             Inl err \<Rightarrow> Inl err
           | Inr (es', any', all') \<Rightarrow> Inr (element' # es', any', all')))"
| "VisitTags d stack [] = Inr []"
| "VisitTags d stack (tag # rest) =
     (case VisitTag d stack tag of
        Inl err \<Rightarrow> Inl err
      | Inr tag' \<Rightarrow>
          (case VisitTags d stack rest of
             Inl err \<Rightarrow> Inl err
           | Inr rest' \<Rightarrow> Inr (tag' # rest')))"
  by pat_completeness auto
termination
  by (relation "measures
       [\<lambda>x. case x of
              Inl (Inl (d, _, _)) \<Rightarrow> d
            | Inl (Inr (Inl (d, _, _))) \<Rightarrow> d
            | Inl (Inr (Inr (d, _, _))) \<Rightarrow> d
            | Inr (Inl (d, _, _, _)) \<Rightarrow> d
            | Inr (Inr (Inl (d, _, _, _, _))) \<Rightarrow> d
            | Inr (Inr (Inr (d, _, _))) \<Rightarrow> d,
        \<lambda>x. case x of
              Inl (Inl _) \<Rightarrow> 0
            | Inl (Inr (Inl _)) \<Rightarrow> 0
            | Inl (Inr (Inr _)) \<Rightarrow> 1
            | Inr (Inl (_, _, _, es)) \<Rightarrow> Suc (length es)
            | Inr (Inr (Inl (_, _, _, _, es))) \<Rightarrow> Suc (length es)
            | Inr (Inr (Inr (_, _, ts))) \<Rightarrow> Suc (length ts)]") auto

text \<open>
  \<open>Analyze\<close>: a StructuralTag owns exactly one Format, so it is modelled by it.
  \<open>max_recursion_depth\<close> is the limit of the recursion guard (process-wide in the source).
\<close>

definition Analyze :: "nat \<Rightarrow> Format \<Rightarrow> ISTError + Format" where
  "Analyze max_recursion_depth structural_tag = Visit max_recursion_depth [] structural_tag"

primrec unlimited :: "Format \<Rightarrow> bool"
and unlimited_last :: "Format list \<Rightarrow> bool"
and unlimited_any :: "Format list \<Rightarrow> bool"
where
  "unlimited (ConstStringFormat v) = False"
| "unlimited (JSONSchemaFormat s) = False"
| "unlimited (QwenXmlParameterFormat s) = False"
| "unlimited (AnyTextFormat ex det) = True"
| "unlimited (GrammarFormat g) = False"
| "unlimited (RegexFormat p ex) = False"
| "unlimited (SequenceFormat es u) = unlimited_last es"
| "unlimited (OrFormat es u) = unlimited_any es"
| "unlimited (TagFmt t) = False"
| "unlimited (TriggeredTagsFormat trg tags ex det alo saf) = True"
| "unlimited (TagsWithSeparatorFormat tags sep det alo saf) = True"
| "unlimited_last [] = False"
| "unlimited_last (e # es) = (if es = [] then unlimited e else unlimited_last es)"
| "unlimited_any [] = False"
| "unlimited_any (e # es) = (unlimited e \<or> unlimited_any es)"

primrec violates :: "Format \<Rightarrow> bool"
and violates_tag :: "TagFormat \<Rightarrow> bool"
and violates_list :: "Format list \<Rightarrow> bool"
and violates_tags :: "TagFormat list \<Rightarrow> bool"
where
  "violates (ConstStringFormat v) = False"
| "violates (JSONSchemaFormat s) = False"
| "violates (QwenXmlParameterFormat s) = False"
| "violates (AnyTextFormat ex det) = False"
| "violates (GrammarFormat g) = False"
| "violates (RegexFormat p ex) = False"
| "violates (SequenceFormat es u) = ((\<exists>e \<in> set (butlast es). unlimited e) \<or> violates_list es)"
| "violates (OrFormat es u) =
     (((\<exists>e \<in> set es. unlimited e) \<and> (\<exists>e \<in> set es. \<not> unlimited e)) \<or> violates_list es)"
| "violates (TagFmt t) = violates_tag t"
| "violates (TriggeredTagsFormat trg tags ex det alo saf) = violates_tags tags"
| "violates (TagsWithSeparatorFormat tags sep det alo saf) = violates_tags tags"
| "violates_tag (TagFormat b c e) = violates c"
| "violates_list [] = False"
| "violates_list (e # es) = (violates e \<or> violates_list es)"
| "violates_tags [] = False"
| "violates_tags (t # ts) = (violates_tag t \<or> violates_tags ts)"

primrec placement_ok :: "Format \<Rightarrow> bool"
and placement_ok_tag :: "TagFormat \<Rightarrow> bool"
and placement_ok_list :: "Format list \<Rightarrow> bool"
and placement_ok_tags :: "TagFormat list \<Rightarrow> bool"
where
  "placement_ok (ConstStringFormat v) = True"
| "placement_ok (JSONSchemaFormat s) = True"
| "placement_ok (QwenXmlParameterFormat s) = True"
| "placement_ok (AnyTextFormat ex det) = True"
| "placement_ok (GrammarFormat g) = True"
| "placement_ok (RegexFormat p ex) = True"
| "placement_ok (SequenceFormat es u) = ((\<forall>e \<in> set (butlast es). \<not> IsUnlimited e) \<and> placement_ok_list es)"
| "placement_ok (OrFormat es u) =
     (((\<forall>e \<in> set es. IsUnlimited e) \<or> (\<forall>e \<in> set es. \<not> IsUnlimited e)) \<and> placement_ok_list es)"
| "placement_ok (TagFmt t) = placement_ok_tag t"
| "placement_ok (TriggeredTagsFormat trg tags ex det alo saf) = placement_ok_tags tags"
| "placement_ok (TagsWithSeparatorFormat tags sep det alo saf) = placement_ok_tags tags"
| "placement_ok_tag (TagFormat b c e) = placement_ok c"
| "placement_ok_list [] = True"
| "placement_ok_list (e # es) = (placement_ok e \<and> placement_ok_list es)"
| "placement_ok_tags [] = True"
| "placement_ok_tags (t # ts) = (placement_ok_tag t \<and> placement_ok_tags ts)"

primrec direct_unlimited :: "Format \<Rightarrow> Format list"
and direct_unlimited_list :: "Format list \<Rightarrow> Format list"
where
  "direct_unlimited (ConstStringFormat v) = []"
| "direct_unlimited (JSONSchemaFormat s) = []"
| "direct_unlimited (QwenXmlParameterFormat s) = []"
| "direct_unlimited (AnyTextFormat ex det) = [AnyTextFormat ex det]"
| "direct_unlimited (GrammarFormat g) = []"
| "direct_unlimited (RegexFormat p ex) = []"
| "direct_unlimited (SequenceFormat es u) = direct_unlimited_list es"
| "direct_unlimited (OrFormat es u) = direct_unlimited_list es"
| "direct_unlimited (TagFmt t) = []"
| "direct_unlimited (TriggeredTagsFormat trg tags ex det alo saf) = [TriggeredTagsFormat trg tags ex det alo saf]"
| "direct_unlimited (TagsWithSeparatorFormat tags sep det alo saf) = [TagsWithSeparatorFormat tags sep det alo saf]"
| "direct_unlimited_list [] = []"
| "direct_unlimited_list (e # es) = direct_unlimited e @ direct_unlimited_list es"

fun detected_end_strs :: "Format \<Rightarrow> string list" where
  "detected_end_strs (AnyTextFormat ex det) = det"
| "detected_end_strs (TriggeredTagsFormat trg tags ex det alo saf) = det"
| "detected_end_strs (TagsWithSeparatorFormat tags sep det alo saf) = det"
| "detected_end_strs f = []"

definition non_empty_ends :: "string list \<Rightarrow> string list" where
  "non_empty_ends ends = filter (\<lambda>s. s \<noteq> []) ends"

primrec any_text_ends_ok :: "Format \<Rightarrow> bool"
and any_text_ends_ok_tag :: "TagFormat \<Rightarrow> bool"
and any_text_ends_ok_list :: "Format list \<Rightarrow> bool"
and any_text_ends_ok_tags :: "TagFormat list \<Rightarrow> bool"
where
  "any_text_ends_ok (ConstStringFormat v) = True"
| "any_text_ends_ok (JSONSchemaFormat s) = True"
| "any_text_ends_ok (QwenXmlParameterFormat s) = True"
| "any_text_ends_ok (AnyTextFormat ex det) = (det \<noteq> [] \<longrightarrow> non_empty_ends det \<noteq> [])"
| "any_text_ends_ok (GrammarFormat g) = True"
| "any_text_ends_ok (RegexFormat p ex) = True"
| "any_text_ends_ok (SequenceFormat es u) = any_text_ends_ok_list es"
| "any_text_ends_ok (OrFormat es u) = any_text_ends_ok_list es"
| "any_text_ends_ok (TagFmt t) = any_text_ends_ok_tag t"
| "any_text_ends_ok (TriggeredTagsFormat trg tags ex det alo saf) = any_text_ends_ok_tags tags"
| "any_text_ends_ok (TagsWithSeparatorFormat tags sep det alo saf) = any_text_ends_ok_tags tags"
| "any_text_ends_ok_tag (TagFormat b c e) = any_text_ends_ok c"
| "any_text_ends_ok_list [] = True"
| "any_text_ends_ok_list (e # es) = (any_text_ends_ok e \<and> any_text_ends_ok_list es)"
| "any_text_ends_ok_tags [] = True"
| "any_text_ends_ok_tags (t # ts) = (any_text_ends_ok_tag t \<and> any_text_ends_ok_tags ts)"


text \<open>
  The Tags of a tree, in the order of the traversal, and the Tags of an input tree
  paired with the Tags at the same places of an analysed tree. \<open>tag_end_rule t t'\<close> is
  what the analyzer is to have done with the input Tag \<open>t\<close> to get the Tag \<open>t'\<close>.
\<close>

primrec tags_of :: "Format \<Rightarrow> TagFormat list"
and tags_of_tag :: "TagFormat \<Rightarrow> TagFormat list"
and tags_of_list :: "Format list \<Rightarrow> TagFormat list"
and tags_of_tags :: "TagFormat list \<Rightarrow> TagFormat list"
where
  "tags_of (ConstStringFormat v) = []"
| "tags_of (JSONSchemaFormat s) = []"
| "tags_of (QwenXmlParameterFormat s) = []"
| "tags_of (AnyTextFormat ex det) = []"
| "tags_of (GrammarFormat g) = []"
| "tags_of (RegexFormat p ex) = []"
| "tags_of (SequenceFormat es u) = tags_of_list es"
| "tags_of (OrFormat es u) = tags_of_list es"
| "tags_of (TagFmt t) = tags_of_tag t"
| "tags_of (TriggeredTagsFormat trg tags ex det alo saf) = tags_of_tags tags"
| "tags_of (TagsWithSeparatorFormat tags sep det alo saf) = tags_of_tags tags"
| "tags_of_tag (TagFormat b c e) = TagFormat b c e # tags_of c"
| "tags_of_list [] = []"
| "tags_of_list (e # es) = tags_of e @ tags_of_list es"
| "tags_of_tags [] = []"
| "tags_of_tags (t # ts) = tags_of_tag t @ tags_of_tags ts"

primrec tag_pairs :: "Format \<Rightarrow> Format \<Rightarrow> (TagFormat \<times> TagFormat) list"
and tag_pairs_tag :: "TagFormat \<Rightarrow> TagFormat \<Rightarrow> (TagFormat \<times> TagFormat) list"
and tag_pairs_list :: "Format list \<Rightarrow> Format list \<Rightarrow> (TagFormat \<times> TagFormat) list"
and tag_pairs_tags :: "TagFormat list \<Rightarrow> TagFormat list \<Rightarrow> (TagFormat \<times> TagFormat) list"
where
  "tag_pairs (ConstStringFormat v) f' = []"
| "tag_pairs (JSONSchemaFormat s) f' = []"
| "tag_pairs (QwenXmlParameterFormat s) f' = []"
| "tag_pairs (AnyTextFormat ex det) f' = []"
| "tag_pairs (GrammarFormat g) f' = []"
| "tag_pairs (RegexFormat p ex) f' = []"
| "tag_pairs (SequenceFormat es u) f' =
     (case f' of SequenceFormat es' u' \<Rightarrow> tag_pairs_list es es' | _ \<Rightarrow> [])"
| "tag_pairs (OrFormat es u) f' =
     (case f' of OrFormat es' u' \<Rightarrow> tag_pairs_list es es' | _ \<Rightarrow> [])"
| "tag_pairs (TagFmt t) f' =
     (case f' of TagFmt t' \<Rightarrow> tag_pairs_tag t t' | _ \<Rightarrow> [])"
| "tag_pairs (TriggeredTagsFormat trg tags ex det alo saf) f' =
     (case f' of TriggeredTagsFormat trg' tags' ex' det' alo' saf' \<Rightarrow> tag_pairs_tags tags tags' | _ \<Rightarrow> [])"
| "tag_pairs (TagsWithSeparatorFormat tags sep det alo saf) f' =
     (case f' of TagsWithSeparatorFormat tags' sep' det' alo' saf' \<Rightarrow> tag_pairs_tags tags tags' | _ \<Rightarrow> [])"
| "tag_pairs_tag (TagFormat b c e) t' = (TagFormat b c e, t') # tag_pairs c (tag_content t')"
| "tag_pairs_list [] es' = []"
| "tag_pairs_list (e # es) es' =
     (case es' of [] \<Rightarrow> [] | e' # rest' \<Rightarrow> tag_pairs e e' @ tag_pairs_list es rest')"
| "tag_pairs_tags [] ts' = []"
| "tag_pairs_tags (t # ts) ts' =
     (case ts' of [] \<Rightarrow> [] | t' # rest' \<Rightarrow> tag_pairs_tag t t' @ tag_pairs_tags ts rest')"

definition tag_end_rule :: "TagFormat \<Rightarrow> TagFormat \<Rightarrow> bool" where
  "tag_end_rule t t' =
     (tag_begin t' = tag_begin t
      \<and> IsUnlimited (tag_content t') = unlimited (tag_content t)
      \<and> (IsUnlimited (tag_content t') \<longrightarrow>
           has_non_empty (tag_end t) \<and> tag_end t' = [] \<and> direct_unlimited (tag_content t') \<noteq> []
           \<and> (\<forall>n \<in> set (direct_unlimited (tag_content t')). detected_end_strs n = tag_end t))
      \<and> (\<not> IsUnlimited (tag_content t') \<longrightarrow> tag_end t' = tag_end t))"

section \<open>StructuralTagParser\<close>

text \<open>
  The JSON tree the parser reads (\<open>picojson::value\<close>). An object is its list of
  fields, \<open>find\<close> returns the first field of that name. The parser never reads a
  number, whose payload stands for the double.
\<close>

datatype json_value =
    JNull
  | JBool bool
  | JNumber int
  | JString string
  | JArray "json_value list"
  | JObject "(string \<times> json_value) list"

definition find_field :: "(string \<times> json_value) list \<Rightarrow> string \<Rightarrow> json_value option" where
  "find_field obj key = map_of obj key"

text \<open>
  The loops over arrays of strings. \<open>strings_of\<close> accepts any strings (AnyText
  \<open>excludes\<close>, Tag \<open>end\<close>); \<open>non_empty_strings_of\<close> rejects the empty string too
  (Regex \<open>excludes\<close>, TriggeredTags \<open>triggers\<close> and \<open>excludes\<close>). \<open>None\<close> is the
  early return of the loop; its message is the same for every element.
\<close>

fun strings_of :: "json_value list \<Rightarrow> string list option" where
  "strings_of [] = Some []"
| "strings_of (JString s # rest) =
     (case strings_of rest of None \<Rightarrow> None | Some strs \<Rightarrow> Some (s # strs))"
| "strings_of (item # rest) = None"

fun non_empty_strings_of :: "json_value list \<Rightarrow> string list option" where
  "non_empty_strings_of [] = Some []"
| "non_empty_strings_of (JString s # rest) =
     (if s = [] then None
      else (case non_empty_strings_of rest of None \<Rightarrow> None | Some strs \<Rightarrow> Some (s # strs)))"
| "non_empty_strings_of (item # rest) = None"

definition ParseConstStringFormat :: "(string \<times> json_value) list \<Rightarrow> ISTError + Format" where
  "ParseConstStringFormat obj =
     (case find_field obj ''value'' of
        Some (JString v) \<Rightarrow>
          if v = [] then Inl (ISTError ''ConstString format must have a value field with a non-empty string'')
          else Inr (ConstStringFormat v)
      | _ \<Rightarrow> Inl (ISTError ''ConstString format must have a value field with a non-empty string''))"

text \<open>\<open>serialize\<close> is \<open>picojson::value::serialize(false)\<close>, a parameter of the model.\<close>

definition ParseJSONSchemaFormat ::
  "(json_value \<Rightarrow> string) \<Rightarrow> (string \<times> json_value) list \<Rightarrow> ISTError + Format" where
  "ParseJSONSchemaFormat serialize obj =
     (case find_field obj ''json_schema'' of
        Some (JObject schema) \<Rightarrow> Inr (JSONSchemaFormat (serialize (JObject schema)))
      | Some (JBool b) \<Rightarrow> Inr (JSONSchemaFormat (serialize (JBool b)))
      | _ \<Rightarrow> Inl (ISTError ''JSON schema format must have a json_schema field with a object or boolean value''))"

definition ParseQwenXmlParameterFormat ::
  "(json_value \<Rightarrow> string) \<Rightarrow> (string \<times> json_value) list \<Rightarrow> ISTError + Format" where
  "ParseQwenXmlParameterFormat serialize obj =
     (case find_field obj ''json_schema'' of
        Some (JObject schema) \<Rightarrow> Inr (QwenXmlParameterFormat (serialize (JObject schema)))
      | Some (JBool b) \<Rightarrow> Inr (QwenXmlParameterFormat (serialize (JBool b)))
      | _ \<Rightarrow> Inl (ISTError ''Qwen XML Parameter format must have a json_schema field with a object or boolean value''))"

definition ParseAnyTextFormat :: "(string \<times> json_value) list \<Rightarrow> ISTError + Format" where
  "ParseAnyTextFormat obj =
     (case find_field obj ''excludes'' of
        None \<Rightarrow>
          if find_field obj ''type'' = None
          then Inl (ISTError ''Any text format should not have any fields other than type'')
          else Inr (AnyTextFormat [] [])
      | Some (JArray excluded_strs_array) \<Rightarrow>
          (case strings_of excluded_strs_array of
             None \<Rightarrow> Inl (ISTError ''AnyText format's excluded_strs array must contain strings'')
           | Some excluded_strs \<Rightarrow> Inr (AnyTextFormat excluded_strs []))
      | Some other \<Rightarrow> Inl (ISTError ''AnyText format's excluded_strs field must be an array''))"

definition ParseGrammarFormat :: "(string \<times> json_value) list \<Rightarrow> ISTError + Format" where
  "ParseGrammarFormat obj =
     (case find_field obj ''grammar'' of
        Some (JString g) \<Rightarrow>
          if g = [] then Inl (ISTError ''Grammar format must have a grammar field with a non-empty string'')
          else Inr (GrammarFormat g)
      | _ \<Rightarrow> Inl (ISTError ''Grammar format must have a grammar field with a non-empty string''))"

definition ParseRegexFormat :: "(string \<times> json_value) list \<Rightarrow> ISTError + Format" where
  "ParseRegexFormat obj =
     (case find_field obj ''pattern'' of
        Some (JString pattern) \<Rightarrow>
          if pattern = [] then Inl (ISTError ''Regex format must have a pattern field with a non-empty string'')
          else
            (case find_field obj ''excludes'' of
               None \<Rightarrow> Inr (RegexFormat pattern [])
             | Some (JArray excluded_strs_array) \<Rightarrow>
                 (case non_empty_strings_of excluded_strs_array of
                    None \<Rightarrow> Inl (ISTError ''Regex format's excludes array must contain non-empty strings'')
                  | Some excluded_strs \<Rightarrow> Inr (RegexFormat pattern excluded_strs))
             | Some other \<Rightarrow> Inl (ISTError ''Regex format's excludes field must be an array''))
      | _ \<Rightarrow> Inl (ISTError ''Regex format must have a pattern field with a non-empty string''))"

text \<open>
  The recursive variant parsers take \<open>ParseFormat\<close> at the remaining depth as the
  parameter \<open>parse_format\<close>; \<open>ParseFormat\<close> below closes the recursion on the depth
  of the recursion guard. The Sequence loop inlines the elements of an element that
  itself parsed to a Sequence. Parsing leaves the annotation fields at their initial
  values (\<open>is_unlimited_ = false\<close>, no detected end strings).
\<close>

fun ParseSequenceElements ::
  "(json_value \<Rightarrow> ISTError + Format) \<Rightarrow> json_value list \<Rightarrow> ISTError + Format list" where
  "ParseSequenceElements parse_format [] = Inr []"
| "ParseSequenceElements parse_format (element # rest) =
     (case parse_format element of
        Inl err \<Rightarrow> Inl err
      | Inr parsed_format \<Rightarrow>
          (case ParseSequenceElements parse_format rest of
             Inl err \<Rightarrow> Inl err
           | Inr elements \<Rightarrow>
               Inr ((case parsed_format of
                       SequenceFormat nested u \<Rightarrow> nested
                     | _ \<Rightarrow> [parsed_format]) @ elements)))"

definition ParseSequenceFormat ::
  "(json_value \<Rightarrow> ISTError + Format) \<Rightarrow> (string \<times> json_value) list \<Rightarrow> ISTError + Format" where
  "ParseSequenceFormat parse_format obj =
     (case find_field obj ''elements'' of
        Some (JArray elements_array) \<Rightarrow>
          (case ParseSequenceElements parse_format elements_array of
             Inl err \<Rightarrow> Inl err
           | Inr elements \<Rightarrow>
               if elements = [] then Inl (ISTError ''Sequence format must have at least one element'')
               else Inr (SequenceFormat elements False))
      | _ \<Rightarrow> Inl (ISTError ''Sequence format must have an elements field with an array''))"

fun ParseOrElements ::
  "(json_value \<Rightarrow> ISTError + Format) \<Rightarrow> json_value list \<Rightarrow> ISTError + Format list" where
  "ParseOrElements parse_format [] = Inr []"
| "ParseOrElements parse_format (element # rest) =
     (case parse_format element of
        Inl err \<Rightarrow> Inl err
      | Inr format \<Rightarrow>
          (case ParseOrElements parse_format rest of
             Inl err \<Rightarrow> Inl err
           | Inr elements \<Rightarrow> Inr (format # elements)))"

definition ParseOrFormat ::
  "(json_value \<Rightarrow> ISTError + Format) \<Rightarrow> (string \<times> json_value) list \<Rightarrow> ISTError + Format" where
  "ParseOrFormat parse_format obj =
     (case find_field obj ''elements'' of
        Some (JArray elements_array) \<Rightarrow>
          (case ParseOrElements parse_format elements_array of
             Inl err \<Rightarrow> Inl err
           | Inr elements \<Rightarrow>
               if elements = [] then Inl (ISTError ''Or format must have at least one element'')
               else Inr (OrFormat elements False))
      | _ \<Rightarrow> Inl (ISTError ''Or format must have an elements field with an array''))"

definition ParseTagFormat ::
  "(json_value \<Rightarrow> ISTError + Format) \<Rightarrow> (string \<times> json_value) list \<Rightarrow> ISTError + TagFormat" where
  "ParseTagFormat parse_format obj =
     (case find_field obj ''begin'' of
        Some (JString begin_str) \<Rightarrow>
          (case find_field obj ''content'' of
             None \<Rightarrow> Inl (ISTError ''Tag format must have a content field'')
           | Some content_value \<Rightarrow>
               (case parse_format content_value of
                  Inl err \<Rightarrow> Inl err
                | Inr content \<Rightarrow>
                    (case find_field obj ''end'' of
                       None \<Rightarrow> Inl (ISTError ''Tag format must have an end field'')
                     | Some (JString end_str) \<Rightarrow> Inr (TagFormat begin_str content [end_str])
                     | Some (JArray end_array) \<Rightarrow>
                         if end_array = [] then Inl (ISTError ''Tag format's end array cannot be empty'')
                         else (case strings_of end_array of
                                 None \<Rightarrow> Inl (ISTError ''Tag format's end array must contain only strings'')
                               | Some end_strings \<Rightarrow> Inr (TagFormat begin_str content end_strings))
                     | Some other \<Rightarrow>
                         Inl (ISTError ''Tag format's end field must be a string or array of strings''))))
      | _ \<Rightarrow> Inl (ISTError ''Tag format's begin field must be a string''))"

text \<open>
  \<open>ParseTagFormat(const picojson::value&)\<close>: the object and type checks first. (Its
  message, like the one of \<open>ParseStructuralTag\<close>, is written without the quotation
  marks around the expected type.)
\<close>

definition ParseTagFormat_value ::
  "(json_value \<Rightarrow> ISTError + Format) \<Rightarrow> json_value \<Rightarrow> ISTError + TagFormat" where
  "ParseTagFormat_value parse_format value =
     (case value of
        JObject obj \<Rightarrow>
          (case find_field obj ''type'' of
             None \<Rightarrow> ParseTagFormat parse_format obj
           | Some (JString type) \<Rightarrow>
               if type \<noteq> ''tag'' then Inl (ISTError ''Tag format's type must be a string tag'')
               else ParseTagFormat parse_format obj
           | Some other \<Rightarrow> Inl (ISTError ''Tag format's type must be a string tag''))
      | _ \<Rightarrow> Inl (ISTError ''Tag format must be an object''))"

fun ParseTags ::
  "(json_value \<Rightarrow> ISTError + Format) \<Rightarrow> json_value list \<Rightarrow> ISTError + TagFormat list" where
  "ParseTags parse_format [] = Inr []"
| "ParseTags parse_format (tag # rest) =
     (case ParseTagFormat_value parse_format tag of
        Inl err \<Rightarrow> Inl err
      | Inr tag_format \<Rightarrow>
          (case ParseTags parse_format rest of
             Inl err \<Rightarrow> Inl err
           | Inr tags \<Rightarrow> Inr (tag_format # tags)))"

text \<open>An optional boolean field (\<open>at_least_one\<close>, \<open>stop_after_first\<close>), false when absent.\<close>

definition optional_bool :: "(string \<times> json_value) list \<Rightarrow> string \<Rightarrow> ISTError + bool" where
  "optional_bool obj key =
     (case find_field obj key of
        None \<Rightarrow> Inr False
      | Some (JBool b) \<Rightarrow> Inr b
      | Some other \<Rightarrow> Inl (ISTError (key @ '' must be a boolean'')))"

definition ParseTriggeredTagsFormat ::
  "(json_value \<Rightarrow> ISTError + Format) \<Rightarrow> (string \<times> json_value) list \<Rightarrow> ISTError + Format" where
  "ParseTriggeredTagsFormat parse_format obj =
     (case find_field obj ''triggers'' of
        Some (JArray triggers_array) \<Rightarrow>
          (case non_empty_strings_of triggers_array of
             None \<Rightarrow> Inl (ISTError ''Triggered tags format's triggers must be non-empty strings'')
           | Some triggers \<Rightarrow>
               if triggers = [] then Inl (ISTError ''Triggered tags format's triggers must be non-empty'')
               else
                 (case find_field obj ''tags'' of
                    Some (JArray tags_array) \<Rightarrow>
                      (case ParseTags parse_format tags_array of
                         Inl err \<Rightarrow> Inl err
                       | Inr tags \<Rightarrow>
                           if tags = [] then Inl (ISTError ''Triggered tags format's tags must be non-empty'')
                           else
                             (case (case find_field obj ''excludes'' of
                                      None \<Rightarrow> Inr []
                                    | Some (JArray excludes_array) \<Rightarrow>
                                        (case non_empty_strings_of excludes_array of
                                           None \<Rightarrow> Inl (ISTError ''Triggered tags format's excluded_strs must be non-empty strings'')
                                         | Some excluded_strs \<Rightarrow> Inr excluded_strs)
                                    | Some other \<Rightarrow>
                                        Inl (ISTError ''Triggered tags format should have a excludes field with an array'')) of
                                Inl err \<Rightarrow> Inl err
                              | Inr excluded_strs \<Rightarrow>
                                  (case optional_bool obj ''at_least_one'' of
                                     Inl err \<Rightarrow> Inl err
                                   | Inr at_least_one \<Rightarrow>
                                       (case optional_bool obj ''stop_after_first'' of
                                          Inl err \<Rightarrow> Inl err
                                        | Inr stop_after_first \<Rightarrow>
                                            Inr (TriggeredTagsFormat triggers tags excluded_strs []
                                                   at_least_one stop_after_first)))))
                  | _ \<Rightarrow> Inl (ISTError ''Triggered tags format must have a tags field with an array''))
           )
      | _ \<Rightarrow> Inl (ISTError ''Triggered tags format must have a triggers field with an array''))"

definition ParseTagsWithSeparatorFormat ::
  "(json_value \<Rightarrow> ISTError + Format) \<Rightarrow> (string \<times> json_value) list \<Rightarrow> ISTError + Format" where
  "ParseTagsWithSeparatorFormat parse_format obj =
     (case find_field obj ''tags'' of
        Some (JArray tags_array) \<Rightarrow>
          (case ParseTags parse_format tags_array of
             Inl err \<Rightarrow> Inl err
           | Inr tags \<Rightarrow>
               if tags = [] then Inl (ISTError ''Tags with separator format's tags must be non-empty'')
               else
                 (case find_field obj ''separator'' of
                    Some (JString separator) \<Rightarrow>
                      (case optional_bool obj ''at_least_one'' of
                         Inl err \<Rightarrow> Inl err
                       | Inr at_least_one \<Rightarrow>
                           (case optional_bool obj ''stop_after_first'' of
                              Inl err \<Rightarrow> Inl err
                            | Inr stop_after_first \<Rightarrow>
                                Inr (TagsWithSeparatorFormat tags separator [] at_least_one stop_after_first)))
                  | _ \<Rightarrow> Inl (ISTError ''Tags with separator format's separator field must be a string'')))
      | _ \<Rightarrow> Inl (ISTError ''Tags with separator format must have a tags field with an array''))"

text \<open>\<open>Result<Format, ISTError>::Convert\<close> of a parsed Tag.\<close>

definition Convert_Tag :: "ISTError + TagFormat \<Rightarrow> ISTError + Format" where
  "Convert_Tag r = (case r of Inl err \<Rightarrow> Inl err | Inr tag_format \<Rightarrow> Inr (TagFmt tag_format))"

text \<open>
  The body of \<open>ParseFormat\<close> below the recursion guard: the dispatch on an explicit
  \<open>type\<close>, and without one the speculative attempts, Tag first.
\<close>

definition ParseFormat_typed ::
  "(json_value \<Rightarrow> string) \<Rightarrow> (json_value \<Rightarrow> ISTError + Format) \<Rightarrow>
     string \<Rightarrow> (string \<times> json_value) list \<Rightarrow> ISTError + Format" where
  "ParseFormat_typed serialize parse_format type obj =
     (if type = ''const_string'' then ParseConstStringFormat obj
      else if type = ''json_schema'' then ParseJSONSchemaFormat serialize obj
      else if type = ''any_text'' then ParseAnyTextFormat obj
      else if type = ''sequence'' then ParseSequenceFormat parse_format obj
      else if type = ''or'' then ParseOrFormat parse_format obj
      else if type = ''tag'' then Convert_Tag (ParseTagFormat parse_format obj)
      else if type = ''triggered_tags'' then ParseTriggeredTagsFormat parse_format obj
      else if type = ''tags_with_separator'' then ParseTagsWithSeparatorFormat parse_format obj
      else if type = ''qwen_xml_parameter'' then ParseQwenXmlParameterFormat serialize obj
      else if type = ''grammar'' then ParseGrammarFormat obj
      else if type = ''regex'' then ParseRegexFormat obj
      else Inl (ISTError (''Format type not recognized: '' @ type)))"

definition ParseFormat_untyped ::
  "(json_value \<Rightarrow> string) \<Rightarrow> (json_value \<Rightarrow> ISTError + Format) \<Rightarrow>
     (string \<times> json_value) list \<Rightarrow> ISTError + Format" where
  "ParseFormat_untyped serialize parse_format obj =
     (case ParseTagFormat parse_format obj of
        Inr tag_format \<Rightarrow> Inr (TagFmt tag_format)
      | Inl tag_err \<Rightarrow>
     (case ParseConstStringFormat obj of
        Inr const_string_format \<Rightarrow> Inr const_string_format
      | Inl const_string_err \<Rightarrow>
     (case ParseJSONSchemaFormat serialize obj of
        Inr json_schema_format \<Rightarrow> Inr json_schema_format
      | Inl json_schema_err \<Rightarrow>
     (case ParseAnyTextFormat obj of
        Inr any_text_format \<Rightarrow> Inr any_text_format
      | Inl any_text_err \<Rightarrow>
     (case ParseSequenceFormat parse_format obj of
        Inr sequence_format \<Rightarrow> Inr sequence_format
      | Inl sequence_err \<Rightarrow>
     (case ParseOrFormat parse_format obj of
        Inr or_format \<Rightarrow> Inr or_format
      | Inl or_err \<Rightarrow>
     (case ParseTriggeredTagsFormat parse_format obj of
        Inr triggered_tags_format \<Rightarrow> Inr triggered_tags_format
      | Inl triggered_tags_err \<Rightarrow>
     (case ParseTagsWithSeparatorFormat parse_format obj of
        Inr tags_with_separator_format \<Rightarrow> Inr tags_with_separator_format
      | Inl tags_with_separator_err \<Rightarrow>
          Inl (ISTError (''Invalid format: '' @ serialize (JObject obj)))))))))))"

definition ParseFormat_body ::
  "(json_value \<Rightarrow> string) \<Rightarrow> (json_value \<Rightarrow> ISTError + Format) \<Rightarrow> json_value \<Rightarrow> ISTError + Format" where
  "ParseFormat_body serialize parse_format value =
     (case value of
        JObject obj \<Rightarrow>
          (case find_field obj ''type'' of
             Some (JString type) \<Rightarrow> ParseFormat_typed serialize parse_format type obj
           | Some other \<Rightarrow> Inl (ISTError ''Format's type must be a string'')
           | None \<Rightarrow> ParseFormat_untyped serialize parse_format obj)
      | _ \<Rightarrow> Inl (ISTError ''Format must be an object''))"

text \<open>
  \<open>ParseFormat serialize d value\<close>: \<open>d\<close> is the number of nested \<open>ParseFormat\<close>
  calls the recursion guard still allows.

  Modelled from the spec: the recursion guard (support/recursion\_guard.h is not among
  the sources). The spec says that recursion is bounded by a configurable depth and that
  exceeding it is a parse error; the model returns \<open>RecursionDepthExceeded\<close> from the
  call that exceeds it.
\<close>

primrec ParseFormat :: "(json_value \<Rightarrow> string) \<Rightarrow> nat \<Rightarrow> json_value \<Rightarrow> ISTError + Format" where
  "ParseFormat serialize 0 = (\<lambda>value. Inl RecursionDepthExceeded)"
| "ParseFormat serialize (Suc d) = (\<lambda>value. ParseFormat_body serialize (ParseFormat serialize d) value)"

definition ParseStructuralTag ::
  "(json_value \<Rightarrow> string) \<Rightarrow> nat \<Rightarrow> json_value \<Rightarrow> ISTError + Format" where
  "ParseStructuralTag serialize max_recursion_depth value =
     (case value of
        JObject obj \<Rightarrow>
          (case (case find_field obj ''type'' of
                   None \<Rightarrow> True
                 | Some (JString type) \<Rightarrow> type = ''structural_tag''
                 | Some other \<Rightarrow> False) of
             False \<Rightarrow> Inl (ISTError ''Structural tag's type must be a string structural_tag'')
           | True \<Rightarrow>
               (case find_field obj ''format'' of
                  None \<Rightarrow> Inl (ISTError ''Structural tag must have a format field'')
                | Some format_value \<Rightarrow> ParseFormat serialize max_recursion_depth format_value))
      | _ \<Rightarrow> Inl (ISTError ''Structural tag must be an object''))"

text \<open>
  The specification's reading of the speculative parse, for comparison with
  \<open>ParseFormat_untyped\<close>: the variant parsers in the order Tag, ConstString, JSONSchema,
  AnyText, Sequence, Or, TriggeredTags, TagsWithSeparator, and the first result that is
  not an error.
\<close>

definition speculative_attempts ::
  "(json_value \<Rightarrow> string) \<Rightarrow> (json_value \<Rightarrow> ISTError + Format) \<Rightarrow>
     (string \<times> json_value) list \<Rightarrow> (ISTError + Format) list" where
  "speculative_attempts serialize parse_format obj =
     [Convert_Tag (ParseTagFormat parse_format obj),
      ParseConstStringFormat obj,
      ParseJSONSchemaFormat serialize obj,
      ParseAnyTextFormat obj,
      ParseSequenceFormat parse_format obj,
      ParseOrFormat parse_format obj,
      ParseTriggeredTagsFormat parse_format obj,
      ParseTagsWithSeparatorFormat parse_format obj]"

definition first_success :: "(ISTError + Format) list \<Rightarrow> (ISTError + Format) option" where
  "first_success attempts = List.find (\<lambda>r. \<not> isl r) attempts"

text \<open>The variant of a format, by name.\<close>

datatype variant =
    VConstString | VJSONSchema | VQwenXmlParameter | VAnyText | VGrammar | VRegex
  | VSequence | VOr | VTag | VTriggeredTags | VTagsWithSeparator

fun variant_of :: "Format \<Rightarrow> variant" where
  "variant_of (ConstStringFormat v) = VConstString"
| "variant_of (JSONSchemaFormat s) = VJSONSchema"
| "variant_of (QwenXmlParameterFormat s) = VQwenXmlParameter"
| "variant_of (AnyTextFormat ex det) = VAnyText"
| "variant_of (GrammarFormat g) = VGrammar"
| "variant_of (RegexFormat p ex) = VRegex"
| "variant_of (SequenceFormat es u) = VSequence"
| "variant_of (OrFormat es u) = VOr"
| "variant_of (TagFmt t) = VTag"
| "variant_of (TriggeredTagsFormat trg tags ex det alo saf) = VTriggeredTags"
| "variant_of (TagsWithSeparatorFormat tags sep det alo saf) = VTagsWithSeparator"

text \<open>The fields by which the speculative parsers recognise an object.\<close>

definition recognized_fields :: "string list" where
  "recognized_fields = [''begin'', ''value'', ''json_schema'', ''excludes'', ''elements'', ''triggers'', ''tags'']"

section \<open>The exclusion automaton of the Regex format\<close>

text \<open>
  Modelled from the spec: the automaton type of fsm.h, which is not among the sources.
  An automaton is the vector of the edge lists of its states; an edge carries the byte
  range \<open>[min, max]\<close> and the target state, in the order of the constructor
  \<open>FSMEdge(min, max, target)\<close>. \<open>GetNextState\<close> returns the target of the first edge
  of the state whose range holds the byte (\<open>None\<close> is \<open>kNoNextState\<close>), \<open>AddState\<close>
  appends a state without edges and returns its index, \<open>AddEdge\<close> appends an edge to a
  state ("walk/create a chain of states one byte at a time").
\<close>

datatype FSMEdge = FSMEdge (edge_min: nat) (edge_max: nat) (edge_target: nat)

type_synonym FSM = "FSMEdge list list"

definition NumStates :: "FSM \<Rightarrow> nat" where
  "NumStates fsm = length fsm"

definition GetEdges :: "FSM \<Rightarrow> nat \<Rightarrow> FSMEdge list" where
  "GetEdges fsm state = fsm ! state"

definition GetNextState :: "FSM \<Rightarrow> nat \<Rightarrow> nat \<Rightarrow> nat option" where
  "GetNextState fsm from ch =
     (case List.find (\<lambda>edge. edge_min edge \<le> ch \<and> ch \<le> edge_max edge) (GetEdges fsm from) of
        None \<Rightarrow> None
      | Some edge \<Rightarrow> Some (edge_target edge))"

definition AddState :: "FSM \<Rightarrow> FSM \<times> nat" where
  "AddState fsm = (fsm @ [[]], length fsm)"

definition AddEdge :: "FSM \<Rightarrow> nat \<Rightarrow> nat \<Rightarrow> nat \<Rightarrow> nat \<Rightarrow> FSM" where
  "AddEdge fsm from to min_ch max_ch = fsm[from := GetEdges fsm from @ [FSMEdge min_ch max_ch to]]"

record FSMWithStartEnd =
  fsm_of :: FSM
  start_of :: nat
  is_end_of :: "bool list"
  is_dfa_of :: bool

text \<open>
  Step 1 of \<open>VisitSub(RegexFormat)\<close>: the trie of the excluded strings. The inner loop
  walks one excluded string from state 0, a byte at a time (\<open>of_char\<close> is the cast of
  the \<open>char\<close> to its unsigned byte); its final state is inserted into \<open>dead_states\<close>.
\<close>

definition exclude_start :: nat where
  "exclude_start = 0"

definition trie_step :: "FSM \<times> nat \<Rightarrow> char \<Rightarrow> FSM \<times> nat" where
  "trie_step acc c =
     (let exclude_fsm = fst acc; current_state = snd acc; ch = of_char c in
      case GetNextState exclude_fsm current_state ch of
        Some next_state \<Rightarrow> (exclude_fsm, next_state)
      | None \<Rightarrow>
          (let (fsm1, next_state) = AddState exclude_fsm
           in (AddEdge fsm1 current_state next_state ch ch, next_state)))"

definition trie_insert :: "FSM \<times> nat list \<Rightarrow> string \<Rightarrow> FSM \<times> nat list" where
  "trie_insert acc exclude_str =
     (let (exclude_fsm, current_state) = foldl trie_step (fst acc, 0) exclude_str
      in (exclude_fsm, current_state # snd acc))"

definition build_trie :: "string list \<Rightarrow> FSM \<times> nat list" where
  "build_trie excluded_strs = foldl trie_insert ([[]], []) excluded_strs"

text \<open>
  Step 2: for each state that is not dead, in increasing order, the bytes its edges
  cover, then (for a state other than the start) the edges of the start state whose
  \<open>min\<close> is not covered, then an edge to the start for every byte of \<open>[0, 255]\<close> still
  uncovered. The start state is handled first, so the later states copy from its
  completed edge list, as in the source.
\<close>

definition covered_bytes_of :: "FSMEdge list \<Rightarrow> nat set" where
  "covered_bytes_of edges = set (concat (map (\<lambda>edge. [edge_min edge ..< Suc (edge_max edge)]) edges))"

definition copy_start_edge :: "FSMEdge list \<times> nat set \<Rightarrow> FSMEdge \<Rightarrow> FSMEdge list \<times> nat set" where
  "copy_start_edge acc start_edge =
     (if edge_min start_edge \<notin> snd acc
      then (fst acc @ [start_edge], insert (edge_min start_edge) (snd acc))
      else acc)"

definition fill_gap :: "nat set \<Rightarrow> FSMEdge list \<Rightarrow> nat \<Rightarrow> FSMEdge list" where
  "fill_gap covered_bytes edges b =
     (if b \<notin> covered_bytes then edges @ [FSMEdge b b exclude_start] else edges)"

definition add_back_edges_state :: "nat list \<Rightarrow> FSM \<Rightarrow> nat \<Rightarrow> FSM" where
  "add_back_edges_state dead_states exclude_fsm state =
     (if state \<in> set dead_states then exclude_fsm
      else
        (let edges = GetEdges exclude_fsm state;
             covered_bytes = covered_bytes_of edges;
             (edges1, covered_bytes1) =
               (if state \<noteq> exclude_start
                then foldl copy_start_edge (edges, covered_bytes) (GetEdges exclude_fsm exclude_start)
                else (edges, covered_bytes));
             edges2 = foldl (fill_gap covered_bytes1) edges1 [0 ..< 256]
         in exclude_fsm[state := edges2]))"

definition add_back_edges :: "nat list \<Rightarrow> FSM \<Rightarrow> FSM" where
  "add_back_edges dead_states exclude_fsm =
     foldl (add_back_edges_state dead_states) exclude_fsm [0 ..< NumStates exclude_fsm]"

text \<open>Step 3: the edges into dead states are removed; every state that is not dead accepts.\<close>

definition remove_dead_edges :: "nat list \<Rightarrow> FSM \<Rightarrow> FSM" where
  "remove_dead_edges dead_states exclude_fsm =
     map (filter (\<lambda>edge. edge_target edge \<notin> set dead_states)) exclude_fsm"

definition exclude_filter :: "string list \<Rightarrow> FSMWithStartEnd" where
  "exclude_filter excluded_strs =
     (let (trie, dead_states) = build_trie excluded_strs;
          exclude_fsm = remove_dead_edges dead_states (add_back_edges dead_states trie);
          exclude_is_end = map (\<lambda>state. state \<notin> set dead_states) [0 ..< NumStates exclude_fsm]
      in \<lparr> fsm_of = exclude_fsm, start_of = exclude_start, is_end_of = exclude_is_end, is_dfa_of = True \<rparr>)"

text \<open>
  Modelled from the spec: acceptance of a byte string by a deterministic automaton with
  start and end states. The run follows \<open>GetNextState\<close> from the start and stops where
  no edge holds the byte; the string is accepted when the run consumes it and ends in
  an end state.
\<close>

fun run_from :: "FSM \<Rightarrow> nat \<Rightarrow> nat list \<Rightarrow> nat option" where
  "run_from fsm state [] = Some state"
| "run_from fsm state (b # bs) =
     (case GetNextState fsm state b of
        None \<Rightarrow> None
      | Some next_state \<Rightarrow> run_from fsm next_state bs)"

definition accepts :: "FSMWithStartEnd \<Rightarrow> string \<Rightarrow> bool" where
  "accepts m s =
     (case run_from (fsm_of m) (start_of m) (map of_char s) of
        None \<Rightarrow> False
      | Some state \<Rightarrow> is_end_of m ! state)"

text \<open>The specification's side: an excluded string occurs in \<open>s\<close> as a substring.\<close>

fun occurs_in :: "string \<Rightarrow> string \<Rightarrow> bool" where
  "occurs_in e [] = (e = [])"
| "occurs_in e (c # s) = (take (length e) (c # s) = e \<or> occurs_in e s)"

definition contains_excluded :: "string list \<Rightarrow> string \<Rightarrow> bool" where
  "contains_excluded excluded_strs s = (\<exists>e \<in> set excluded_strs. occurs_in e s)"

section \<open>FormatFingerprinter\<close>

text \<open>
  \<open>append_each sep strs\<close> is the loop \<open>for s in strs: result += s + sep\<close>;
  \<open>bool_to_string\<close> is \<open>std::to_string\<close> of a \<open>bool\<close> (promoted to \<open>int\<close>).
\<close>

fun append_each :: "string \<Rightarrow> string list \<Rightarrow> string" where
  "append_each sep [] = []"
| "append_each sep (s # rest) = s @ sep @ append_each sep rest"

definition bool_to_string :: "bool \<Rightarrow> string" where
  "bool_to_string b = (if b then ''1'' else ''0'')"

primrec ComputeImpl :: "Format \<Rightarrow> string"
and ComputeImpl_Tag :: "TagFormat \<Rightarrow> string"
and ComputeImpl_elements :: "Format list \<Rightarrow> string"
where
  "ComputeImpl (ConstStringFormat v) = ''CS:'' @ v"
| "ComputeImpl (JSONSchemaFormat json_schema) = ''JS:'' @ json_schema"
| "ComputeImpl (QwenXmlParameterFormat xml_schema) = ''QX:'' @ xml_schema"
| "ComputeImpl (AnyTextFormat excluded_strs det) =
     ''AT:'' @ append_each ''|'' excluded_strs @ ''E:'' @ append_each ''|'' det"
| "ComputeImpl (GrammarFormat g) = ''GR:'' @ g"
| "ComputeImpl (RegexFormat pattern excluded_strs) =
     ''RX:'' @ pattern @ (if excluded_strs \<noteq> [] then '':X:'' @ append_each ''|'' excluded_strs else [])"
| "ComputeImpl (SequenceFormat es u) = ''SQ['' @ ComputeImpl_elements es @ '']''"
| "ComputeImpl (OrFormat es u) = ''OR['' @ ComputeImpl_elements es @ '']''"
| "ComputeImpl (TagFmt t) = ComputeImpl_Tag t"
| "ComputeImpl (TriggeredTagsFormat triggers tags excludes det at_least_one stop_after_first) =
     ''TT:'' @ append_each '','' triggers @ '':''
       @ bool_to_string at_least_one @ '','' @ bool_to_string stop_after_first"
| "ComputeImpl (TagsWithSeparatorFormat tags separator det at_least_one stop_after_first) =
     ''TS:'' @ separator @ '':''
       @ bool_to_string at_least_one @ '','' @ bool_to_string stop_after_first"
| "ComputeImpl_Tag (TagFormat b c e) =
     ''TG:'' @ b @ '':{'' @ ComputeImpl c @ ''}:'' @ append_each ''|'' e"
| "ComputeImpl_elements [] = []"
| "ComputeImpl_elements (element # rest) = ComputeImpl element @ '','' @ ComputeImpl_elements rest"

definition Compute :: "Format \<Rightarrow> string" where
  "Compute format = ComputeImpl format"

section \<open>The grammar builder\<close>

text \<open>
  Modelled from the spec: the grammar builder (grammar\_builder.h is not among the
  sources). The spec gives its operations over opaque integer handles: every \<open>add_\<close>
  operation for an expression appends the expression and returns its id, \<open>add_rule\<close>
  and \<open>add_empty_rule\<close> append a rule under a name hint and return its id,
  \<open>update_rule_body\<close> sets the body of a rule. A rule is its name hint and its body
  (\<open>None\<close> for the rule without a body that \<open>add_empty_rule\<close> creates). \<open>TagDispatch\<close>
  carries the pairs of trigger and rule id, \<open>stop_eos\<close>, the stop strings,
  \<open>loop_after_dispatch\<close> and the excluded strings, in the order of the initialisers
  in the source.
\<close>

datatype TagDispatch =
  TagDispatch (tag_rule_pairs: "(string \<times> nat) list") (stop_eos: bool) (stop_str: "string list")
    (loop_after_dispatch: bool) (excluded_str: "string list")

datatype GrammarExpr =
    ByteString string
  | EmptyStr
  | CharacterClass "(nat \<times> nat) list" bool
  | CharacterClassStar "(nat \<times> nat) list" bool
  | RuleRef nat
  | Sequence "nat list"
  | Choices "nat list"
  | TagDispatchExpr TagDispatch

record GrammarBuilder =
  grammar_exprs :: "GrammarExpr list"
  grammar_rules :: "(string \<times> nat option) list"

definition empty_builder :: GrammarBuilder where
  "empty_builder = \<lparr> grammar_exprs = [], grammar_rules = [] \<rparr>"

definition AddExpr :: "GrammarBuilder \<Rightarrow> GrammarExpr \<Rightarrow> GrammarBuilder \<times> nat" where
  "AddExpr b e = (b \<lparr> grammar_exprs := grammar_exprs b @ [e] \<rparr>, length (grammar_exprs b))"

definition AddByteString :: "GrammarBuilder \<Rightarrow> string \<Rightarrow> GrammarBuilder \<times> nat" where
  "AddByteString b bytes = AddExpr b (ByteString bytes)"

definition AddEmptyStr :: "GrammarBuilder \<Rightarrow> GrammarBuilder \<times> nat" where
  "AddEmptyStr b = AddExpr b EmptyStr"

definition AddCharacterClass :: "GrammarBuilder \<Rightarrow> (nat \<times> nat) list \<Rightarrow> GrammarBuilder \<times> nat" where
  "AddCharacterClass b ranges = AddExpr b (CharacterClass ranges False)"

definition AddCharacterClassStar ::
  "GrammarBuilder \<Rightarrow> (nat \<times> nat) list \<Rightarrow> bool \<Rightarrow> GrammarBuilder \<times> nat" where
  "AddCharacterClassStar b ranges negated = AddExpr b (CharacterClassStar ranges negated)"

definition AddRuleRef :: "GrammarBuilder \<Rightarrow> nat \<Rightarrow> GrammarBuilder \<times> nat" where
  "AddRuleRef b rule_id = AddExpr b (RuleRef rule_id)"

definition AddSequence :: "GrammarBuilder \<Rightarrow> nat list \<Rightarrow> GrammarBuilder \<times> nat" where
  "AddSequence b elements = AddExpr b (Sequence elements)"

definition AddChoices :: "GrammarBuilder \<Rightarrow> nat list \<Rightarrow> GrammarBuilder \<times> nat" where
  "AddChoices b choices = AddExpr b (Choices choices)"

definition AddTagDispatch :: "GrammarBuilder \<Rightarrow> TagDispatch \<Rightarrow> GrammarBuilder \<times> nat" where
  "AddTagDispatch b tag_dispatch = AddExpr b (TagDispatchExpr tag_dispatch)"

definition AddRuleWithHint :: "GrammarBuilder \<Rightarrow> string \<Rightarrow> nat \<Rightarrow> GrammarBuilder \<times> nat" where
  "AddRuleWithHint b name_hint body_expr_id =
     (b \<lparr> grammar_rules := grammar_rules b @ [(name_hint, Some body_expr_id)] \<rparr>, length (grammar_rules b))"

definition AddEmptyRuleWithHint :: "GrammarBuilder \<Rightarrow> string \<Rightarrow> GrammarBuilder \<times> nat" where
  "AddEmptyRuleWithHint b name_hint =
     (b \<lparr> grammar_rules := grammar_rules b @ [(name_hint, None)] \<rparr>, length (grammar_rules b))"

definition UpdateRuleBody :: "GrammarBuilder \<Rightarrow> nat \<Rightarrow> nat \<Rightarrow> GrammarBuilder" where
  "UpdateRuleBody b rule_id body_expr_id =
     b \<lparr> grammar_rules := (grammar_rules b)[rule_id := (fst (grammar_rules b ! rule_id), Some body_expr_id)] \<rparr>"

text \<open>
  The external collaborators of the converter, parameters of the model:
  \<^item> \<open>add_sub_grammar src b\<close> is \<open>SubGrammarAdder().Apply(&grammar_builder_, g)\<close> for the
    grammar \<open>g\<close> that \<open>Grammar::FromJSONSchema\<close>, \<open>Grammar::FromEBNF\<close> (of the EBNF
    text, or of \<open>QwenXMLToolCallingToEBNF\<close> of a schema) or \<open>Grammar::FromRegex\<close>
    builds from \<open>src\<close>; it returns the id of the added root rule;
  \<^item> \<open>regex_fsm_build\<close> is \<open>RegexFSMBuilder::Build\<close>;
  \<^item> \<open>fsm_intersect\<close> is \<open>FSMWithStartEnd::Intersect\<close>.
  Both automaton builders return the message of their error on failure.
\<close>

datatype SubGrammarSource =
    FromJSONSchema string
  | FromQwenXMLToolCalling string
  | FromEBNF string
  | FromRegex string

record Collaborators =
  add_sub_grammar :: "SubGrammarSource \<Rightarrow> GrammarBuilder \<Rightarrow> GrammarBuilder \<times> nat"
  regex_fsm_build :: "string \<Rightarrow> string + FSMWithStartEnd"
  fsm_intersect :: "FSMWithStartEnd \<Rightarrow> FSMWithStartEnd \<Rightarrow> string + FSMWithStartEnd"

section \<open>StructuralTagGrammarConverter\<close>

text \<open>
  The converter owns the grammar builder and the cache from fingerprint to rule id
  (\<open>std::unordered_map\<close>: a lookup is \<open>map_of\<close>, an assignment puts the new pair
  in front, where it shadows an older pair of the same key).
\<close>

record Converter =
  grammar_builder :: GrammarBuilder
  fingerprint_to_rule_id :: "(string \<times> nat) list"

definition new_converter :: Converter where
  "new_converter = \<lparr> grammar_builder = empty_builder, fingerprint_to_rule_id = [] \<rparr>"

definition IsPrefix :: "string \<Rightarrow> string \<Rightarrow> bool" where
  "IsPrefix prefix full_str =
     (length prefix \<le> length full_str \<and> take (length prefix) full_str = prefix)"

text \<open>\<open>ok c r\<close> stores the builder of an emission back into the converter.\<close>

definition ok :: "Converter \<Rightarrow> GrammarBuilder \<times> nat \<Rightarrow> ISTError + (Converter \<times> nat)" where
  "ok c r = Inr (c \<lparr> grammar_builder := fst r \<rparr>, snd r)"

subsection \<open>Emission of rules and expressions\<close>

definition emit_ConstString :: "GrammarBuilder \<Rightarrow> string \<Rightarrow> GrammarBuilder \<times> nat" where
  "emit_ConstString b v =
     (let (b1, expr) = AddByteString b v;
          (b2, sequence_expr) = AddSequence b1 [expr];
          (b3, choices_expr) = AddChoices b2 [sequence_expr]
      in AddRuleWithHint b3 ''const_string'' choices_expr)"

text \<open>
  \<open>VisitSub(AnyTextFormat)\<close>. \<open>non_empty_ends\<close> is the filter of the detected end
  strings; the \<open>XGRAMMAR_DCHECK\<close> that it is not empty is the \<open>CheckFailed\<close> branch of
  \<open>Converter_VisitSub\<close> below, and \<open>emit_AnyText\<close> is what the function emits when the
  check passes.
\<close>

definition AnyText_tag_dispatch :: "string list \<Rightarrow> string list \<Rightarrow> TagDispatch" where
  "AnyText_tag_dispatch excluded_strs det = TagDispatch [] False (non_empty_ends det) False excluded_strs"

definition emit_AnyText :: "GrammarBuilder \<Rightarrow> string list \<Rightarrow> string list \<Rightarrow> GrammarBuilder \<times> nat" where
  "emit_AnyText b excluded_strs det =
     (if det \<noteq> [] then
        (let (b1, tag_dispatch_expr) = AddTagDispatch b (AnyText_tag_dispatch excluded_strs det)
         in AddRuleWithHint b1 ''any_text'' tag_dispatch_expr)
      else
        (let (b1, any_text_expr) = AddCharacterClassStar b [(0, 0x10FFFF)] False;
             (b2, sequence_expr) = AddSequence b1 [any_text_expr];
             (b3, choices_expr) = AddChoices b2 [sequence_expr]
         in AddRuleWithHint b3 ''any_text'' choices_expr))"

text \<open>An end string as an expression: \<open>AddEmptyStr\<close> for the empty string.\<close>

definition AddEndStr :: "GrammarBuilder \<Rightarrow> string \<Rightarrow> GrammarBuilder \<times> nat" where
  "AddEndStr b end_str = (if end_str = [] then AddEmptyStr b else AddByteString b end_str)"

fun AddEndSequences :: "GrammarBuilder \<Rightarrow> string list \<Rightarrow> GrammarBuilder \<times> nat list" where
  "AddEndSequences b [] = (b, [])"
| "AddEndSequences b (end_str # rest) =
     (let (b1, end_expr) = AddEndStr b end_str;
          (b2, sequence_id) = AddSequence b1 [end_expr];
          (b3, end_sequence_ids) = AddEndSequences b2 rest
      in (b3, sequence_id # end_sequence_ids))"

text \<open>
  The production of one tag, \<open>begin content end\<close>, as a sequence expression. The source
  writes it four times (in \<open>VisitSub(TagFormat)\<close> and three times in
  \<open>VisitSub(TriggeredTagsFormat)\<close>) with the same builder calls in the same order: no end
  expression when \<open>end\<close> is empty, the end string itself when there is one, a
  \<open>tag_end\<close> rule of choices when there are several.
\<close>

definition AddTagSequence ::
  "GrammarBuilder \<Rightarrow> string \<Rightarrow> nat \<Rightarrow> string list \<Rightarrow> GrammarBuilder \<times> nat" where
  "AddTagSequence b begin_str content_rule_id tag_end_strs =
     (let (b1, begin_expr) = AddByteString b begin_str;
          (b2, rule_ref_expr) = AddRuleRef b1 content_rule_id
      in if tag_end_strs = [] then AddSequence b2 [begin_expr, rule_ref_expr]
         else if length tag_end_strs = 1 then
           (let (b3, end_expr) = AddEndStr b2 (tag_end_strs ! 0)
            in AddSequence b3 [begin_expr, rule_ref_expr, end_expr])
         else
           (let (b3, end_sequence_ids) = AddEndSequences b2 tag_end_strs;
                (b4, end_choices_expr) = AddChoices b3 end_sequence_ids;
                (b5, end_choices_rule_id) = AddRuleWithHint b4 ''tag_end'' end_choices_expr;
                (b6, end_rule_ref_expr) = AddRuleRef b5 end_choices_rule_id
            in AddSequence b6 [begin_expr, rule_ref_expr, end_rule_ref_expr]))"

definition emit_Tag :: "GrammarBuilder \<Rightarrow> TagFormat \<Rightarrow> nat \<Rightarrow> GrammarBuilder \<times> nat" where
  "emit_Tag b format sub_rule_id =
     (let (b1, sequence_expr_id) = AddTagSequence b (tag_begin format) sub_rule_id (tag_end format);
          (b2, choices_expr) = AddChoices b1 [sequence_expr_id]
      in AddRuleWithHint b2 ''tag'' choices_expr)"

definition emit_Sequence :: "GrammarBuilder \<Rightarrow> nat list \<Rightarrow> GrammarBuilder \<times> nat" where
  "emit_Sequence b rule_ref_ids =
     (let (b1, sequence_expr) = AddSequence b rule_ref_ids;
          (b2, expr) = AddChoices b1 [sequence_expr]
      in AddRuleWithHint b2 ''sequence'' expr)"

definition emit_Or :: "GrammarBuilder \<Rightarrow> nat list \<Rightarrow> GrammarBuilder \<times> nat" where
  "emit_Or b sequence_ids =
     (let (b1, expr) = AddChoices b sequence_ids
      in AddRuleWithHint b1 ''or'' expr)"

subsection \<open>Regex with excludes: the product automaton as rules\<close>

definition IsEndState :: "FSMWithStartEnd \<Rightarrow> nat \<Rightarrow> bool" where
  "IsEndState m state = is_end_of m ! state"

fun AddStateRules :: "GrammarBuilder \<Rightarrow> nat \<Rightarrow> GrammarBuilder \<times> nat list" where
  "AddStateRules b 0 = (b, [])"
| "AddStateRules b (Suc n) =
     (let (b1, rule_id) = AddEmptyRuleWithHint b ''regex_state'';
          (b2, rule_ids) = AddStateRules b1 n
      in (b2, rule_id # rule_ids))"

text \<open>
  Every edge of the model is a character range (\<open>IsCharRange\<close>): the edge type holds
  no other kind.
\<close>

definition AddEdgeSequence ::
  "nat list \<Rightarrow> GrammarBuilder \<times> nat list \<Rightarrow> FSMEdge \<Rightarrow> GrammarBuilder \<times> nat list" where
  "AddEdgeSequence state_rule_ids acc edge =
     (let (b1, char_expr) = AddCharacterClass (fst acc) [(edge_min edge, edge_max edge)];
          (b2, target_ref) = AddRuleRef b1 (state_rule_ids ! edge_target edge);
          (b3, sequence_id) = AddSequence b2 [char_expr, target_ref]
      in (b3, snd acc @ [sequence_id]))"

definition AddStateRuleBody ::
  "FSMWithStartEnd \<Rightarrow> nat list \<Rightarrow> GrammarBuilder \<Rightarrow> nat \<Rightarrow> GrammarBuilder" where
  "AddStateRuleBody result_fsm state_rule_ids b state =
     (let acc0 = (if IsEndState result_fsm state
                  then (let (b1, empty_expr) = AddEmptyStr b;
                            (b2, sequence_id) = AddSequence b1 [empty_expr]
                        in (b2, [sequence_id]))
                  else (b, []));
          (b3, choice_seqs) = foldl (AddEdgeSequence state_rule_ids) acc0 (GetEdges (fsm_of result_fsm) state)
      in if choice_seqs = [] then
           (let (b4, empty_expr) = AddEmptyStr b3;
                (b5, sequence_id) = AddSequence b4 [empty_expr];
                (b6, choices_expr) = AddChoices b5 [sequence_id]
            in UpdateRuleBody b6 (state_rule_ids ! state) choices_expr)
         else
           (let (b4, choices_expr) = AddChoices b3 choice_seqs
            in UpdateRuleBody b4 (state_rule_ids ! state) choices_expr))"

definition emit_Regex ::
  "Collaborators \<Rightarrow> GrammarBuilder \<Rightarrow> string \<Rightarrow> string list \<Rightarrow> ISTError + (GrammarBuilder \<times> nat)" where
  "emit_Regex ext b pattern excluded_strs =
     (if excluded_strs = [] then Inr (add_sub_grammar ext (FromRegex pattern) b)
      else
        (case regex_fsm_build ext pattern of
           Inl what \<Rightarrow> Inl (ISTError (''Failed to build FSM from regex pattern: '' @ what))
         | Inr regex_fsm \<Rightarrow>
             (case fsm_intersect ext regex_fsm (exclude_filter excluded_strs) of
                Inl what \<Rightarrow>
                  Inl (ISTError (''Failed to compute intersection for regex with excludes: '' @ what))
              | Inr result_fsm \<Rightarrow>
                  (let num_states = NumStates (fsm_of result_fsm) in
                   if num_states = 0
                   then Inl (ISTError ''Regex with excludes results in empty language (nothing matches)'')
                   else
                     (let (b1, state_rule_ids) = AddStateRules b num_states;
                          b2 = foldl (AddStateRuleBody result_fsm state_rule_ids) b1 [0 ..< num_states]
                      in Inr (b2, state_rule_ids ! start_of result_fsm))))))"

subsection \<open>TriggeredTags\<close>

text \<open>
  The search for the trigger of a tag: \<open>matched_trigger_id\<close> is \<open>None\<close> for the
  source's \<open>-1\<close>; a second matching trigger is the "multiple triggers" error.
\<close>

fun match_triggers :: "string \<Rightarrow> nat \<Rightarrow> nat option \<Rightarrow> string list \<Rightarrow> ISTError + nat option" where
  "match_triggers tag_begin_str it_trigger matched_trigger_id [] = Inr matched_trigger_id"
| "match_triggers tag_begin_str it_trigger matched_trigger_id (trigger # rest) =
     (if IsPrefix trigger tag_begin_str then
        (if matched_trigger_id \<noteq> None
         then Inl (ISTError ''One tag matches multiple triggers in a triggered tags format'')
         else match_triggers tag_begin_str (Suc it_trigger) (Some it_trigger) rest)
      else match_triggers tag_begin_str (Suc it_trigger) matched_trigger_id rest)"

text \<open>The tag productions of a list of \<open>(begin, content rule id, end)\<close>, as choice elements.\<close>

fun AddTagSequences ::
  "GrammarBuilder \<Rightarrow> (string \<times> nat \<times> string list) list \<Rightarrow> GrammarBuilder \<times> nat list" where
  "AddTagSequences b [] = (b, [])"
| "AddTagSequences b ((begin_str, content_rule_id, tag_end_strs) # rest) =
     (let (b1, sequence_id) = AddTagSequence b begin_str content_rule_id tag_end_strs;
          (b2, choice_elements) = AddTagSequences b1 rest
      in (b2, sequence_id # choice_elements))"

text \<open>All tags with their full \<open>begin\<close> (step 2 and step 3.3).\<close>

definition full_tag_productions :: "TagFormat list \<Rightarrow> nat list \<Rightarrow> (string \<times> nat \<times> string list) list" where
  "full_tag_productions tags tag_content_rule_ids =
     map (\<lambda>it_tag. (tag_begin (tags ! it_tag), tag_content_rule_ids ! it_tag, tag_end (tags ! it_tag)))
       [0 ..< length tags]"

text \<open>The tags of one trigger, with the trigger stripped from \<open>begin\<close> (step 3.1).\<close>

definition stripped_tag_productions ::
  "TagFormat list \<Rightarrow> nat list \<Rightarrow> string \<Rightarrow> nat list \<Rightarrow> (string \<times> nat \<times> string list) list" where
  "stripped_tag_productions tags tag_content_rule_ids trigger tag_ids =
     map (\<lambda>tag_id. (drop (length trigger) (tag_begin (tags ! tag_id)),
                     tag_content_rule_ids ! tag_id, tag_end (tags ! tag_id)))
       tag_ids"

text \<open>Step 2: \<open>at_least_one && stop_after_first\<close>, exactly one tag and no text.\<close>

definition emit_TriggeredTags_one ::
  "GrammarBuilder \<Rightarrow> TagFormat list \<Rightarrow> string list \<Rightarrow> nat list \<Rightarrow> GrammarBuilder \<times> nat" where
  "emit_TriggeredTags_one b tags det tag_content_rule_ids =
     (let (b1, choice_elements) = AddTagSequences b (full_tag_productions tags tag_content_rule_ids);
          (b2, choice_expr_id) = AddChoices b1 choice_elements
      in if det \<noteq> [] then
           (let (b3, sub_rule_id) = AddRuleWithHint b2 ''triggered_tags_sub'' choice_expr_id;
                (b4, ref_sub_rule_expr_id) = AddRuleRef b3 sub_rule_id
            in if length det = 1 then
                 (let (b5, end_str_expr_id) = AddEndStr b4 (det ! 0);
                      (b6, sequence_expr_id) = AddSequence b5 [ref_sub_rule_expr_id, end_str_expr_id];
                      (b7, choice_expr_id') = AddChoices b6 [sequence_expr_id]
                  in AddRuleWithHint b7 ''triggered_tags'' choice_expr_id')
               else
                 (let (b5, end_sequence_ids) = AddEndSequences b4 det;
                      (b6, end_choices_expr) = AddChoices b5 end_sequence_ids;
                      (b7, end_choices_rule_id) = AddRuleWithHint b6 ''end_choices'' end_choices_expr;
                      (b8, end_rule_ref_expr) = AddRuleRef b7 end_choices_rule_id;
                      (b9, sequence_expr_id) = AddSequence b8 [ref_sub_rule_expr_id, end_rule_ref_expr];
                      (b10, choice_expr_id') = AddChoices b9 [sequence_expr_id]
                  in AddRuleWithHint b10 ''triggered_tags'' choice_expr_id'))
         else AddRuleWithHint b2 ''triggered_tags'' choice_expr_id)"

text \<open>Step 3.1: one \<open>triggered_tags_group\<close> rule per trigger.\<close>

fun AddTriggerGroups ::
  "GrammarBuilder \<Rightarrow> TagFormat list \<Rightarrow> nat list \<Rightarrow> (string \<times> nat list) list \<Rightarrow>
     GrammarBuilder \<times> (string \<times> nat) list" where
  "AddTriggerGroups b tags tag_content_rule_ids [] = (b, [])"
| "AddTriggerGroups b tags tag_content_rule_ids ((trigger, tag_ids) # rest) =
     (let (b1, choice_elements) =
            AddTagSequences b (stripped_tag_productions tags tag_content_rule_ids trigger tag_ids);
          (b2, choice_expr_id) = AddChoices b1 choice_elements;
          (b3, sub_rule_id) = AddRuleWithHint b2 ''triggered_tags_group'' choice_expr_id;
          (b4, tag_rule_pairs) = AddTriggerGroups b3 tags tag_content_rule_ids rest
      in (b4, (trigger, sub_rule_id) # tag_rule_pairs))"

text \<open>Step 3: text mixed with triggered tags, through a tag dispatch.\<close>

definition emit_TriggeredTags_dispatch ::
  "GrammarBuilder \<Rightarrow> string list \<Rightarrow> TagFormat list \<Rightarrow> string list \<Rightarrow> string list \<Rightarrow> bool \<Rightarrow> bool \<Rightarrow>
     nat list list \<Rightarrow> nat list \<Rightarrow> GrammarBuilder \<times> nat" where
  "emit_TriggeredTags_dispatch b triggers tags excludes det at_least_one stop_after_first
       trigger_to_tag_ids tag_content_rule_ids =
     (let (b1, tag_rule_pairs) =
            AddTriggerGroups b tags tag_content_rule_ids
              (map (\<lambda>it_trigger. (triggers ! it_trigger, trigger_to_tag_ids ! it_trigger))
                 [0 ..< length triggers]);
          loop_after_dispatch = (\<not> stop_after_first);
          (b2, rule_expr_id) =
            (if det \<noteq> []
             then AddTagDispatch b1
                    (TagDispatch tag_rule_pairs False (non_empty_ends det) loop_after_dispatch excludes)
             else AddTagDispatch b1 (TagDispatch tag_rule_pairs True [] loop_after_dispatch excludes))
      in if at_least_one then
           (let (b3, first_choice_elements) =
                  AddTagSequences b2 (full_tag_productions tags tag_content_rule_ids);
                (b4, first_choice_expr_id) = AddChoices b3 first_choice_elements;
                (b5, first_rule_id) = AddRuleWithHint b4 ''triggered_tags_first'' first_choice_expr_id;
                (b6, tag_dispatch_rule_id) = AddRuleWithHint b5 ''triggered_tags_sub'' rule_expr_id;
                (b7, ref_first_rule_expr_id) = AddRuleRef b6 first_rule_id;
                (b8, ref_tag_dispatch_rule_expr_id) = AddRuleRef b7 tag_dispatch_rule_id;
                (b9, sequence_expr_id) =
                  AddSequence b8 [ref_first_rule_expr_id, ref_tag_dispatch_rule_expr_id];
                (b10, rule_expr_id') = AddChoices b9 [sequence_expr_id]
            in AddRuleWithHint b10 ''triggered_tags'' rule_expr_id')
         else AddRuleWithHint b2 ''triggered_tags'' rule_expr_id)"

definition emit_TriggeredTags ::
  "GrammarBuilder \<Rightarrow> string list \<Rightarrow> TagFormat list \<Rightarrow> string list \<Rightarrow> string list \<Rightarrow> bool \<Rightarrow> bool \<Rightarrow>
     nat list list \<Rightarrow> nat list \<Rightarrow> GrammarBuilder \<times> nat" where
  "emit_TriggeredTags b triggers tags excludes det at_least_one stop_after_first
       trigger_to_tag_ids tag_content_rule_ids =
     (if at_least_one \<and> stop_after_first
      then emit_TriggeredTags_one b tags det tag_content_rule_ids
      else emit_TriggeredTags_dispatch b triggers tags excludes det at_least_one stop_after_first
             trigger_to_tag_ids tag_content_rule_ids)"

subsection \<open>TagsWithSeparator\<close>

text \<open>The byte-string expressions of the non-empty detected end strings.\<close>

fun AddEndStrExprs :: "GrammarBuilder \<Rightarrow> string list \<Rightarrow> GrammarBuilder \<times> nat list" where
  "AddEndStrExprs b [] = (b, [])"
| "AddEndStrExprs b (end_str # rest) =
     (if end_str \<noteq> [] then
        (let (b1, expr) = AddByteString b end_str;
             (b2, end_str_expr_ids) = AddEndStrExprs b1 rest
         in (b2, expr # end_str_expr_ids))
      else AddEndStrExprs b rest)"

text \<open>\<open>AddSequence({prefix..., end_str_expr_id})\<close> for every end string expression.\<close>

fun AddSequencesWith :: "GrammarBuilder \<Rightarrow> nat list \<Rightarrow> nat list \<Rightarrow> GrammarBuilder \<times> nat list" where
  "AddSequencesWith b prefix_ids [] = (b, [])"
| "AddSequencesWith b prefix_ids (end_str_expr_id # rest) =
     (let (b1, sequence_id) = AddSequence b (prefix_ids @ [end_str_expr_id]);
          (b2, choices) = AddSequencesWith b1 prefix_ids rest
      in (b2, sequence_id # choices))"

definition separator_matches_end :: "string list \<Rightarrow> string \<Rightarrow> bool" where
  "separator_matches_end det separator = (\<exists>end_str \<in> set det. end_str = separator)"

text \<open>Step 2, the special case without recursion.\<close>

definition emit_TagsWithSeparator_special ::
  "GrammarBuilder \<Rightarrow> bool \<Rightarrow> nat \<Rightarrow> nat list \<Rightarrow> GrammarBuilder \<times> nat" where
  "emit_TagsWithSeparator_special b at_least_one all_tags_rule_ref_id end_str_expr_ids =
     (let has_end_strs = (end_str_expr_ids \<noteq> []);
          (b', rule_body_expr_id) =
            (if at_least_one then
               (if \<not> has_end_strs then
                  (let (b1, sequence_id) = AddSequence b [all_tags_rule_ref_id]
                   in AddChoices b1 [sequence_id])
                else
                  (let (b1, choices) = AddSequencesWith b [all_tags_rule_ref_id] end_str_expr_ids
                   in AddChoices b1 choices))
             else
               (if \<not> has_end_strs then
                  (let (b1, sequence_id) = AddSequence b [all_tags_rule_ref_id];
                       (b2, empty_expr) = AddEmptyStr b1
                   in AddChoices b2 [sequence_id, empty_expr])
                else
                  (let (b1, choices1) = AddSequencesWith b [all_tags_rule_ref_id] end_str_expr_ids;
                       (b2, choices2) = AddSequencesWith b1 [] end_str_expr_ids
                   in AddChoices b2 (choices1 @ choices2))))
      in AddRuleWithHint b' ''tags_with_separator'' rule_body_expr_id)"

text \<open>Step 3, the recursive form with the \<open>tags_with_separator_sub\<close> rule.\<close>

definition emit_TagsWithSeparator_general ::
  "GrammarBuilder \<Rightarrow> string \<Rightarrow> bool \<Rightarrow> nat \<Rightarrow> nat list \<Rightarrow> GrammarBuilder \<times> nat" where
  "emit_TagsWithSeparator_general b separator at_least_one all_tags_rule_ref_id end_str_expr_ids =
     (let has_end_strs = (end_str_expr_ids \<noteq> []);
          (b1, sub_rule_id) = AddEmptyRuleWithHint b ''tags_with_separator_sub'';
          (b2, end_str_sequence_id) =
            (if \<not> has_end_strs then AddEmptyStr b1
             else if length end_str_expr_ids = 1 then AddSequence b1 [end_str_expr_ids ! 0]
             else (let (b', end_str_choices) = AddSequencesWith b1 [] end_str_expr_ids
                   in AddChoices b' end_str_choices));
          (b3, sub_sequence_prefix) =
            (if separator \<noteq> []
             then (let (b', separator_expr) = AddByteString b2 separator in (b', [separator_expr]))
             else (b2, []));
          (b4, sub_rule_ref) = AddRuleRef b3 sub_rule_id;
          (b5, sub_sequence_id) =
            AddSequence b4 (sub_sequence_prefix @ [all_tags_rule_ref_id, sub_rule_ref]);
          (b6, sub_rule_body_id) = AddChoices b5 [sub_sequence_id, end_str_sequence_id];
          b7 = UpdateRuleBody b6 sub_rule_id sub_rule_body_id;
          (b8, sub_rule_ref') = AddRuleRef b7 sub_rule_id;
          (b9, root_sequence_id) = AddSequence b8 [all_tags_rule_ref_id, sub_rule_ref'];
          choices = [root_sequence_id] @ (if \<not> at_least_one then [end_str_sequence_id] else []);
          (b10, rule_body_expr_id) = AddChoices b9 choices
      in AddRuleWithHint b10 ''tags_with_separator'' rule_body_expr_id)"

definition emit_TagsWithSeparator ::
  "GrammarBuilder \<Rightarrow> string \<Rightarrow> string list \<Rightarrow> bool \<Rightarrow> bool \<Rightarrow> nat list \<Rightarrow> GrammarBuilder \<times> nat" where
  "emit_TagsWithSeparator b separator det at_least_one stop_after_first choice_ids =
     (let (b1, choice_expr_id) = AddChoices b choice_ids;
          (b2, all_tags_rule_id) = AddRuleWithHint b1 ''tags_with_separator_tags'' choice_expr_id;
          (b3, all_tags_rule_ref_id) = AddRuleRef b2 all_tags_rule_id;
          (b4, end_str_expr_ids) = AddEndStrExprs b3 det;
          has_end_strs = (end_str_expr_ids \<noteq> [])
      in if stop_after_first \<or> (has_end_strs \<and> separator_matches_end det separator)
         then emit_TagsWithSeparator_special b4 at_least_one all_tags_rule_ref_id end_str_expr_ids
         else emit_TagsWithSeparator_general b4 separator at_least_one all_tags_rule_ref_id end_str_expr_ids)"

subsection \<open>The recursive visit\<close>

text \<open>
  \<open>Converter_Visit\<close> is \<open>StructuralTagGrammarConverter::Visit\<close> (the analyzer's functions
  have the unprefixed names): the fingerprint, the cache lookup, and on a miss the
  dispatch to \<open>VisitSub\<close> and the store of a successful result. The loops over elements
  and tags thread the converter through their visits:
  \<^item> \<open>Converter_VisitSequenceElements\<close> collects the rule references of a Sequence,
  \<^item> \<open>Converter_VisitOrElements\<close> the one-reference sequences of an Or,
  \<^item> \<open>Converter_VisitTriggeredTags\<close> is step 1 of TriggeredTags: per tag, the search of
    its trigger and the visit of its content, collecting \<open>trigger_to_tag_ids\<close> and
    \<open>tag_content_rule_ids\<close>,
  \<^item> \<open>Converter_VisitTags\<close> is step 1 of TagsWithSeparator: the visit of each tag as a
    Format, collecting the one-reference sequences.
\<close>

function (sequential)
  Converter_Visit :: "Collaborators \<Rightarrow> Converter \<Rightarrow> Format \<Rightarrow> ISTError + (Converter \<times> nat)"
and Converter_VisitSub :: "Collaborators \<Rightarrow> Converter \<Rightarrow> Format \<Rightarrow> ISTError + (Converter \<times> nat)"
and Converter_VisitSequenceElements ::
  "Collaborators \<Rightarrow> Converter \<Rightarrow> Format list \<Rightarrow> ISTError + (Converter \<times> nat list)"
and Converter_VisitOrElements ::
  "Collaborators \<Rightarrow> Converter \<Rightarrow> Format list \<Rightarrow> ISTError + (Converter \<times> nat list)"
and Converter_VisitTriggeredTags ::
  "Collaborators \<Rightarrow> Converter \<Rightarrow> string list \<Rightarrow> nat \<Rightarrow> nat list list \<Rightarrow> nat list \<Rightarrow> TagFormat list \<Rightarrow>
     ISTError + (Converter \<times> nat list list \<times> nat list)"
and Converter_VisitTags ::
  "Collaborators \<Rightarrow> Converter \<Rightarrow> TagFormat list \<Rightarrow> ISTError + (Converter \<times> nat list)"
where
  "Converter_Visit ext c format =
     (case map_of (fingerprint_to_rule_id c) (Compute format) of
        Some rule_id \<Rightarrow> Inr (c, rule_id)
      | None \<Rightarrow>
          (case Converter_VisitSub ext c format of
             Inl err \<Rightarrow> Inl err
           | Inr (c', rule_id) \<Rightarrow>
               Inr (c' \<lparr> fingerprint_to_rule_id := (Compute format, rule_id) # fingerprint_to_rule_id c' \<rparr>,
                    rule_id)))"
| "Converter_VisitSub ext c (ConstStringFormat v) = ok c (emit_ConstString (grammar_builder c) v)"
| "Converter_VisitSub ext c (JSONSchemaFormat json_schema) =
     ok c (add_sub_grammar ext (FromJSONSchema json_schema) (grammar_builder c))"
| "Converter_VisitSub ext c (QwenXmlParameterFormat xml_schema) =
     ok c (add_sub_grammar ext (FromQwenXMLToolCalling xml_schema) (grammar_builder c))"
| "Converter_VisitSub ext c (AnyTextFormat excluded_strs det) =
     (if det \<noteq> [] \<and> non_empty_ends det = []
      then Inl (CheckFailed ''At least one detected end string must be non-empty'')
      else ok c (emit_AnyText (grammar_builder c) excluded_strs det))"
| "Converter_VisitSub ext c (GrammarFormat g) =
     ok c (add_sub_grammar ext (FromEBNF g) (grammar_builder c))"
| "Converter_VisitSub ext c (RegexFormat pattern excluded_strs) =
     (case emit_Regex ext (grammar_builder c) pattern excluded_strs of
        Inl err \<Rightarrow> Inl err
      | Inr r \<Rightarrow> ok c r)"
| "Converter_VisitSub ext c (SequenceFormat elements u) =
     (case Converter_VisitSequenceElements ext c elements of
        Inl err \<Rightarrow> Inl err
      | Inr (c', rule_ref_ids) \<Rightarrow> ok c' (emit_Sequence (grammar_builder c') rule_ref_ids))"
| "Converter_VisitSub ext c (OrFormat elements u) =
     (case Converter_VisitOrElements ext c elements of
        Inl err \<Rightarrow> Inl err
      | Inr (c', sequence_ids) \<Rightarrow> ok c' (emit_Or (grammar_builder c') sequence_ids))"
| "Converter_VisitSub ext c (TagFmt (TagFormat b content e)) =
     (case Converter_Visit ext c content of
        Inl err \<Rightarrow> Inl err
      | Inr (c', sub_rule_id) \<Rightarrow> ok c' (emit_Tag (grammar_builder c') (TagFormat b content e) sub_rule_id))"
| "Converter_VisitSub ext c (TriggeredTagsFormat triggers tags excludes det at_least_one stop_after_first) =
     (case Converter_VisitTriggeredTags ext c triggers 0 (replicate (length triggers) []) [] tags of
        Inl err \<Rightarrow> Inl err
      | Inr (c', trigger_to_tag_ids, tag_content_rule_ids) \<Rightarrow>
          ok c' (emit_TriggeredTags (grammar_builder c') triggers tags excludes det at_least_one
                   stop_after_first trigger_to_tag_ids tag_content_rule_ids))"
| "Converter_VisitSub ext c (TagsWithSeparatorFormat tags separator det at_least_one stop_after_first) =
     (case Converter_VisitTags ext c tags of
        Inl err \<Rightarrow> Inl err
      | Inr (c', choice_ids) \<Rightarrow>
          ok c' (emit_TagsWithSeparator (grammar_builder c') separator det at_least_one
                   stop_after_first choice_ids))"
| "Converter_VisitSequenceElements ext c [] = Inr (c, [])"
| "Converter_VisitSequenceElements ext c (element # rest) =
     (case Converter_Visit ext c element of
        Inl err \<Rightarrow> Inl err
      | Inr (c1, sub_rule_id) \<Rightarrow>
          (let (b, rule_ref_expr) = AddRuleRef (grammar_builder c1) sub_rule_id in
           case Converter_VisitSequenceElements ext (c1 \<lparr> grammar_builder := b \<rparr>) rest of
             Inl err \<Rightarrow> Inl err
           | Inr (c2, rule_ref_ids) \<Rightarrow> Inr (c2, rule_ref_expr # rule_ref_ids)))"
| "Converter_VisitOrElements ext c [] = Inr (c, [])"
| "Converter_VisitOrElements ext c (element # rest) =
     (case Converter_Visit ext c element of
        Inl err \<Rightarrow> Inl err
      | Inr (c1, sub_rule_id) \<Rightarrow>
          (let (b1, rule_ref_expr) = AddRuleRef (grammar_builder c1) sub_rule_id;
               (b2, sequence_id) = AddSequence b1 [rule_ref_expr] in
           case Converter_VisitOrElements ext (c1 \<lparr> grammar_builder := b2 \<rparr>) rest of
             Inl err \<Rightarrow> Inl err
           | Inr (c2, sequence_ids) \<Rightarrow> Inr (c2, sequence_id # sequence_ids)))"
| "Converter_VisitTriggeredTags ext c triggers it_tag trigger_to_tag_ids tag_content_rule_ids [] =
     Inr (c, trigger_to_tag_ids, tag_content_rule_ids)"
| "Converter_VisitTriggeredTags ext c triggers it_tag trigger_to_tag_ids tag_content_rule_ids
       (TagFormat tag_begin_str content e # rest) =
     (case match_triggers tag_begin_str 0 None triggers of
        Inl err \<Rightarrow> Inl err
      | Inr None \<Rightarrow> Inl (ISTError ''One tag does not match any trigger in a triggered tags format'')
      | Inr (Some matched_trigger_id) \<Rightarrow>
          (case Converter_Visit ext c content of
             Inl err \<Rightarrow> Inl err
           | Inr (c1, content_rule_id) \<Rightarrow>
               Converter_VisitTriggeredTags ext c1 triggers (Suc it_tag)
                 (trigger_to_tag_ids[matched_trigger_id := trigger_to_tag_ids ! matched_trigger_id @ [it_tag]])
                 (tag_content_rule_ids @ [content_rule_id]) rest))"
| "Converter_VisitTags ext c [] = Inr (c, [])"
| "Converter_VisitTags ext c (tag # rest) =
     (case Converter_Visit ext c (TagFmt tag) of
        Inl err \<Rightarrow> Inl err
      | Inr (c1, tag_rule_id) \<Rightarrow>
          (let (b1, tag_rule_ref_id) = AddRuleRef (grammar_builder c1) tag_rule_id;
               (b2, sequence_expr_id) = AddSequence b1 [tag_rule_ref_id] in
           case Converter_VisitTags ext (c1 \<lparr> grammar_builder := b2 \<rparr>) rest of
             Inl err \<Rightarrow> Inl err
           | Inr (c2, choice_ids) \<Rightarrow> Inr (c2, sequence_expr_id # choice_ids)))"
  by pat_completeness auto
termination
  by (relation "measure
       (\<lambda>x. case x of
              Inl (Inl (_, _, f)) \<Rightarrow> 3 * size f + 1
            | Inl (Inr (Inl (_, _, f))) \<Rightarrow> 3 * size f
            | Inl (Inr (Inr (_, _, es))) \<Rightarrow> 3 * size_list size es + 2
            | Inr (Inl (_, _, es)) \<Rightarrow> 3 * size_list size es + 2
            | Inr (Inr (Inl (_, _, _, _, _, _, ts))) \<Rightarrow> 3 * size_list size ts + 2
            | Inr (Inr (Inr (_, _, ts))) \<Rightarrow> 3 * size_list size ts + 2)") auto

text \<open>
  \<open>Convert\<close>: the visit of the top-level format from a fresh converter, then the root
  rule. The grammar returned is the builder's content with the id of the root rule.
\<close>

definition AddRootRuleAndGetGrammar :: "Converter \<Rightarrow> nat \<Rightarrow> GrammarBuilder \<times> nat" where
  "AddRootRuleAndGetGrammar c ref_rule_id =
     (let (b1, expr) = AddRuleRef (grammar_builder c) ref_rule_id;
          (b2, sequence_expr) = AddSequence b1 [expr];
          (b3, choices_expr) = AddChoices b2 [sequence_expr]
      in AddRuleWithHint b3 ''root'' choices_expr)"

definition Convert :: "Collaborators \<Rightarrow> Format \<Rightarrow> ISTError + (GrammarBuilder \<times> nat)" where
  "Convert ext structural_tag =
     (case Converter_Visit ext new_converter structural_tag of
        Inl err \<Rightarrow> Inl err
      | Inr (c, root_rule_id) \<Rightarrow> Inr (AddRootRuleAndGetGrammar c root_rule_id))"


text \<open>Every cache entry of \<open>c\<close> is an entry of \<open>c'\<close>, with the same rule id.\<close>

definition cache_preserved :: "Converter \<Rightarrow> Converter \<Rightarrow> bool" where
  "cache_preserved c c' =
     (\<forall>k v. map_of (fingerprint_to_rule_id c) k = Some v \<longrightarrow> map_of (fingerprint_to_rule_id c') k = Some v)"








text \<open>
  The AnyText formats of a tree, each as its \<open>excluded_strs\<close> and its
  \<open>detected_end_strs_\<close>, and the body of a rule of the builder.
\<close>

primrec any_texts :: "Format \<Rightarrow> (string list \<times> string list) list"
and any_texts_tag :: "TagFormat \<Rightarrow> (string list \<times> string list) list"
and any_texts_list :: "Format list \<Rightarrow> (string list \<times> string list) list"
and any_texts_tags :: "TagFormat list \<Rightarrow> (string list \<times> string list) list"
where
  "any_texts (ConstStringFormat v) = []"
| "any_texts (JSONSchemaFormat s) = []"
| "any_texts (QwenXmlParameterFormat s) = []"
| "any_texts (AnyTextFormat ex det) = [(ex, det)]"
| "any_texts (GrammarFormat g) = []"
| "any_texts (RegexFormat p ex) = []"
| "any_texts (SequenceFormat es u) = any_texts_list es"
| "any_texts (OrFormat es u) = any_texts_list es"
| "any_texts (TagFmt t) = any_texts_tag t"
| "any_texts (TriggeredTagsFormat trg tags ex det alo saf) = any_texts_tags tags"
| "any_texts (TagsWithSeparatorFormat tags sep det alo saf) = any_texts_tags tags"
| "any_texts_tag (TagFormat b c e) = any_texts c"
| "any_texts_list [] = []"
| "any_texts_list (e # es) = any_texts e @ any_texts_list es"
| "any_texts_tags [] = []"
| "any_texts_tags (t # ts) = any_texts_tag t @ any_texts_tags ts"

definition rule_body :: "GrammarBuilder \<Rightarrow> nat \<Rightarrow> GrammarExpr option" where
  "rule_body b rule_id =
     (if rule_id < length (grammar_rules b)
      then (case snd (grammar_rules b ! rule_id) of
              None \<Rightarrow> None
            | Some body \<Rightarrow> if body < length (grammar_exprs b) then Some (grammar_exprs b ! body) else None)
      else None)"

section \<open>Collaborators for the evaluation of examples\<close>

text \<open>
  A stand-in for the external collaborators, for evaluating conversions of formats that
  call none of them (no JSONSchema, QwenXmlParameter, Grammar or Regex format): the
  sub-grammar adder adds one rule without a body, the automaton builders fail.
\<close>

definition no_collaborators :: Collaborators where
  "no_collaborators =
     \<lparr> add_sub_grammar = (\<lambda>src b. AddEmptyRuleWithHint b ''external''),
       regex_fsm_build = (\<lambda>pattern. Inl ''unavailable''),
       fsm_intersect = (\<lambda>lhs rhs. Inl ''unavailable'') \<rparr>"

lemma unlimited_any_set: "unlimited_any es = (\<exists>e \<in> set es. unlimited e)"
  by (induction es) auto

lemma Visit_placement:
  "\<forall>f'. Visit d stack f = Inr f' \<longrightarrow> placement_ok f' \<and> IsUnlimited f' = unlimited f \<and> \<not> violates f"
  "\<forall>t'. VisitTag d stack t = Inr t' \<longrightarrow> placement_ok_tag t' \<and> \<not> violates_tag t"
  "\<forall>t'. VisitSub_Tag d stack t = Inr t' \<longrightarrow> placement_ok_tag t' \<and> \<not> violates_tag t"
  "\<forall>es' u'. VisitSub_SequenceElements d stack i es = Inr (es', u') \<longrightarrow>
     placement_ok_list es' \<and> \<not> violates_list es \<and> (\<forall>e \<in> set (butlast es'). \<not> IsUnlimited e)
     \<and> (\<forall>e \<in> set (butlast es). \<not> unlimited e) \<and> u' = unlimited_last es"
  "\<forall>es' any' all'. VisitSub_OrElements d stack any all es = Inr (es', any', all') \<longrightarrow>
     placement_ok_list es' \<and> \<not> violates_list es
     \<and> any' = (any \<or> (\<exists>e \<in> set es. unlimited e)) \<and> all' = (all \<and> (\<forall>e \<in> set es. unlimited e))
     \<and> any' = (any \<or> (\<exists>e \<in> set es'. IsUnlimited e)) \<and> all' = (all \<and> (\<forall>e \<in> set es'. IsUnlimited e))"
  "\<forall>ts'. VisitTags d stack ts = Inr ts' \<longrightarrow> placement_ok_tags ts' \<and> \<not> violates_tags ts"
proof (induction d stack f and d stack t and d stack t and d stack i es and d stack any all es and d stack ts
    rule: Visit_VisitTag_VisitSub_Tag_VisitSub_SequenceElements_VisitSub_OrElements_VisitTags.induct)
qed (auto simp: unlimited_any_set split: sum.splits if_splits)

lemma Visit_detect:
  "\<forall>f'. Visit d stack f = Inr f' \<longrightarrow>
     (\<forall>n \<in> set (direct_unlimited f'). detected_end_strs n = DetectEndStrings stack)
     \<and> (IsUnlimited f' = (direct_unlimited f' \<noteq> []))"
  "\<forall>t'. VisitTag d stack t = Inr t' \<longrightarrow> 
     tag_begin t' = tag_begin t
     \<and> (IsUnlimited (tag_content t') \<longrightarrow>
          has_non_empty (tag_end t) \<and> tag_end t' = [] \<and> direct_unlimited (tag_content t') \<noteq> []
          \<and> (\<forall>n \<in> set (direct_unlimited (tag_content t')). detected_end_strs n = tag_end t))
     \<and> (\<not> IsUnlimited (tag_content t') \<longrightarrow> tag_end t' = tag_end t)"
  "\<forall>t'. VisitSub_Tag d stack t = Inr t' \<longrightarrow> DetectEndStrings stack = tag_end t \<longrightarrow>
     tag_begin t' = tag_begin t
     \<and> (IsUnlimited (tag_content t') \<longrightarrow>
          has_non_empty (tag_end t) \<and> tag_end t' = [] \<and> direct_unlimited (tag_content t') \<noteq> []
          \<and> (\<forall>n \<in> set (direct_unlimited (tag_content t')). detected_end_strs n = tag_end t))
     \<and> (\<not> IsUnlimited (tag_content t') \<longrightarrow> tag_end t' = tag_end t)"
  "\<forall>es' u'. VisitSub_SequenceElements d stack i es = Inr (es', u') \<longrightarrow>
     (\<forall>n \<in> set (direct_unlimited_list es'). detected_end_strs n = DetectEndStrings stack)
     \<and> (u' = (direct_unlimited_list es' \<noteq> []))"
  "\<forall>es' any' all'. VisitSub_OrElements d stack any all es = Inr (es', any', all') \<longrightarrow>
     (\<forall>n \<in> set (direct_unlimited_list es'). detected_end_strs n = DetectEndStrings stack)
     \<and> (any' = (any \<or> direct_unlimited_list es' \<noteq> []))"
  "\<forall>ts'. VisitTags d stack ts = Inr ts' \<longrightarrow> True"
proof (induction d stack f and d stack t and d stack t and d stack i es and d stack any all es and d stack ts
    rule: Visit_VisitTag_VisitSub_Tag_VisitSub_SequenceElements_VisitSub_OrElements_VisitTags.induct)
qed (auto split: sum.splits if_splits)

lemma non_empty_ends_iff: "non_empty_ends e \<noteq> [] \<longleftrightarrow> has_non_empty e"
  by (auto simp: non_empty_ends_def has_non_empty_def filter_empty_conv)

lemma Visit_any_text:
  "\<forall>f'. Visit d stack f = Inr f' \<longrightarrow>
     (IsUnlimited f' = (direct_unlimited f' \<noteq> []))
     \<and> ((DetectEndStrings stack \<noteq> [] \<longrightarrow> has_non_empty (DetectEndStrings stack)) \<or> direct_unlimited f' = []
          \<longrightarrow> any_text_ends_ok f')"
  "\<forall>t'. VisitTag d stack t = Inr t' \<longrightarrow> any_text_ends_ok_tag t'"
  "\<forall>t'. VisitSub_Tag d stack t = Inr t' \<longrightarrow> DetectEndStrings stack = tag_end t \<longrightarrow> any_text_ends_ok_tag t'"
  "\<forall>es' u'. VisitSub_SequenceElements d stack i es = Inr (es', u') \<longrightarrow>
     (u' = (direct_unlimited_list es' \<noteq> []))
     \<and> ((DetectEndStrings stack \<noteq> [] \<longrightarrow> has_non_empty (DetectEndStrings stack)) \<or> direct_unlimited_list es' = []
          \<longrightarrow> any_text_ends_ok_list es')"
  "\<forall>es' any' all'. VisitSub_OrElements d stack any all es = Inr (es', any', all') \<longrightarrow>
     (any' = (any \<or> direct_unlimited_list es' \<noteq> []))
     \<and> ((DetectEndStrings stack \<noteq> [] \<longrightarrow> has_non_empty (DetectEndStrings stack)) \<or> direct_unlimited_list es' = []
          \<longrightarrow> any_text_ends_ok_list es')"
  "\<forall>ts'. VisitTags d stack ts = Inr ts' \<longrightarrow> any_text_ends_ok_tags ts'"
proof (induction d stack f and d stack t and d stack t and d stack i es and d stack any all es and d stack ts
    rule: Visit_VisitTag_VisitSub_Tag_VisitSub_SequenceElements_VisitSub_OrElements_VisitTags.induct)
qed (auto simp: non_empty_ends_iff split: sum.splits if_splits)

lemma Visit_TagFmt:
  "Visit d stack (TagFmt t) = (case VisitTag d stack t of Inl err \<Rightarrow> Inl err | Inr t' \<Rightarrow> Inr (TagFmt t'))"
  by (cases d) simp_all

lemma VisitTag_content:
  assumes "VisitTag d stack t = Inr t'"
  shows "\<exists>d'. d = Suc d' \<and> Visit d' (TagFmt t # stack) (tag_content t) = Inr (tag_content t')"
proof (cases d)
  case 0
  with assms show ?thesis by simp
next
  case (Suc d')
  with assms show ?thesis
    by (cases t) (auto split: sum.splits if_splits)
qed

text \<open>
  C4. Analysis fails whenever some Sequence has an unlimited element that is not its last
  one, or some Or has both unlimited and limited elements (\<open>violates\<close>, with the
  unlimited property of the input read bottom-up by \<open>unlimited\<close>); and in every
  result that analysis accepts, all non-last elements of every Sequence are limited and
  every Or has all of its elements unlimited or none, by \<open>IsUnlimited\<close> on the derived
  flags (\<open>placement_ok\<close>).
\<close>

theorem analyzer_unlimited_placement:
  "(violates f \<longrightarrow> (\<exists>err. Analyze n f = Inl err))
   \<and> (\<forall>f'. Analyze n f = Inr f' \<longrightarrow> placement_ok f')"
proof (cases "Analyze n f")
  case (Inl err)
  then show ?thesis by simp
next
  case (Inr f')
  then have "placement_ok f' \<and> \<not> violates f"
    using Visit_placement(1) [of n "[]" f] by (simp add: Analyze_def)
  with Inr show ?thesis by simp
qed

theorem analyzer_unlimited_placement_witness:
  "violates (SequenceFormat [AnyTextFormat [] [], ConstStringFormat ''z''] False)
   \<and> (\<exists>err. Analyze 5 (SequenceFormat [AnyTextFormat [] [], ConstStringFormat ''z''] False) = Inl err)
   \<and> Analyze 5 (SequenceFormat [ConstStringFormat ''k='', AnyTextFormat [] []] False)
       = Inr (SequenceFormat [ConstStringFormat ''k='', AnyTextFormat [] []] True)
   \<and> placement_ok (SequenceFormat [ConstStringFormat ''k='', AnyTextFormat [] []] True)"
  using analyzer_unlimited_placement [of "SequenceFormat [AnyTextFormat [] [], ConstStringFormat ''z''] False" 5]
    analyzer_unlimited_placement [of "SequenceFormat [ConstStringFormat ''k='', AnyTextFormat [] []] False" 5]
  by (simp add: Analyze_def eval_nat_numeral)

lemma Visit_tag_pairs:
  "\<forall>f'. Visit d stack f = Inr f' \<longrightarrow>
     map fst (tag_pairs f f') = tags_of f \<and> map snd (tag_pairs f f') = tags_of f'
     \<and> (\<forall>(t, t') \<in> set (tag_pairs f f'). tag_end_rule t t')"
  "\<forall>t'. VisitTag d stack t = Inr t' \<longrightarrow>
     map fst (tag_pairs_tag t t') = tags_of_tag t \<and> map snd (tag_pairs_tag t t') = tags_of_tag t'
     \<and> (\<forall>(t, t') \<in> set (tag_pairs_tag t t'). tag_end_rule t t')"
  "\<forall>t'. VisitSub_Tag d stack t = Inr t' \<longrightarrow> DetectEndStrings stack = tag_end t \<longrightarrow>
     map fst (tag_pairs_tag t t') = tags_of_tag t \<and> map snd (tag_pairs_tag t t') = tags_of_tag t'
     \<and> (\<forall>(t, t') \<in> set (tag_pairs_tag t t'). tag_end_rule t t')"
  "\<forall>es' u'. VisitSub_SequenceElements d stack i es = Inr (es', u') \<longrightarrow>
     map fst (tag_pairs_list es es') = tags_of_list es \<and> map snd (tag_pairs_list es es') = tags_of_list es'
     \<and> (\<forall>(t, t') \<in> set (tag_pairs_list es es'). tag_end_rule t t')"
  "\<forall>es' any' all'. VisitSub_OrElements d stack any all es = Inr (es', any', all') \<longrightarrow>
     map fst (tag_pairs_list es es') = tags_of_list es \<and> map snd (tag_pairs_list es es') = tags_of_list es'
     \<and> (\<forall>(t, t') \<in> set (tag_pairs_list es es'). tag_end_rule t t')"
  "\<forall>ts'. VisitTags d stack ts = Inr ts' \<longrightarrow>
     map fst (tag_pairs_tags ts ts') = tags_of_tags ts \<and> map snd (tag_pairs_tags ts ts') = tags_of_tags ts'
     \<and> (\<forall>(t, t') \<in> set (tag_pairs_tags ts ts'). tag_end_rule t t')"
proof (induction d stack f and d stack t and d stack t and d stack i es and d stack any all es and d stack ts
    rule: Visit_VisitTag_VisitSub_Tag_VisitSub_SequenceElements_VisitSub_OrElements_VisitTags.induct)
  case (15 d stack b c e)
  show ?case
  proof (intro allI impI)
    fix t'
    assume v: "VisitSub_Tag d stack (TagFormat b c e) = Inr t'"
      and s: "DetectEndStrings stack = tag_end (TagFormat b c e)"
    from v obtain c' where c': "Visit d stack c = Inr c'" and t': "tag_content t' = c'"
      by (auto split: sum.splits if_splits)
    from Visit_placement(1) [of d stack c] c' have u: "IsUnlimited c' = unlimited c"
      by simp
    from Visit_detect(3) [of d stack "TagFormat b c e"] v s u t'
    have r: "tag_end_rule (TagFormat b c e) t'"
      by (simp add: tag_end_rule_def)
    from 15 c' have ih: "map fst (tag_pairs c c') = tags_of c \<and> map snd (tag_pairs c c') = tags_of c'
        \<and> (\<forall>(t, t') \<in> set (tag_pairs c c'). tag_end_rule t t')"
      by simp
    from r ih t' show "map fst (tag_pairs_tag (TagFormat b c e) t') = tags_of_tag (TagFormat b c e)
        \<and> map snd (tag_pairs_tag (TagFormat b c e) t') = tags_of_tag t'
        \<and> (\<forall>(t, t') \<in> set (tag_pairs_tag (TagFormat b c e) t'). tag_end_rule t t')"
      by (cases t') auto
  qed
qed (auto split: sum.splits if_splits)

text \<open>
  C5. Over the whole tree: the Tags of the input \<open>tags_of structural_tag\<close> and the Tags
  of an accepted result \<open>tags_of analyzed\<close> are the two sides of the list
  \<open>tag_pairs structural_tag analyzed\<close>, which pairs every input Tag \<open>t\<close> with the Tag \<open>t'\<close>
  at its place in the result.
  \<^item> Analysis fails when some Tag of the input has unlimited content and no non-empty
    string in its \<open>end\<close>.
  \<^item> When analysis succeeds, for every Tag of the tree: the content of \<open>t'\<close> is
    unlimited exactly when the content of \<open>t\<close> is; if it is, the original \<open>end\<close> holds a
    non-empty string, the \<open>end\<close> of \<open>t'\<close> is empty, and the unlimited descendants that
    have this Tag as nearest enclosing Tag (AnyText, TriggeredTags, TagsWithSeparator;
    there is at least one) all carry the complete original \<open>end\<close> in
    \<open>detected_end_strs_\<close>; if it is limited, \<open>end\<close> is unchanged.
\<close>

theorem tag_end_clearing:
  "((\<exists>t \<in> set (tags_of structural_tag). unlimited (tag_content t) \<and> \<not> has_non_empty (tag_end t))
      \<longrightarrow> (\<exists>err. Analyze max_recursion_depth structural_tag = Inl err))
   \<and> (\<forall>analyzed. Analyze max_recursion_depth structural_tag = Inr analyzed \<longrightarrow>
         map fst (tag_pairs structural_tag analyzed) = tags_of structural_tag
         \<and> map snd (tag_pairs structural_tag analyzed) = tags_of analyzed
         \<and> (\<forall>(t, t') \<in> set (tag_pairs structural_tag analyzed).
               tag_begin t' = tag_begin t
               \<and> IsUnlimited (tag_content t') = unlimited (tag_content t)
               \<and> (IsUnlimited (tag_content t') \<longrightarrow>
                     has_non_empty (tag_end t) \<and> tag_end t' = []
                     \<and> direct_unlimited (tag_content t') \<noteq> []
                     \<and> (\<forall>n \<in> set (direct_unlimited (tag_content t')). detected_end_strs n = tag_end t))
               \<and> (\<not> IsUnlimited (tag_content t') \<longrightarrow> tag_end t' = tag_end t)))"
proof (cases "Analyze max_recursion_depth structural_tag")
  case (Inl err)
  then show ?thesis by simp
next
  case (Inr analyzed)
  then have v: "Visit max_recursion_depth [] structural_tag = Inr analyzed"
    by (simp add: Analyze_def)
  from Visit_tag_pairs(1) [of max_recursion_depth "[]" structural_tag] v
  have m1: "map fst (tag_pairs structural_tag analyzed) = tags_of structural_tag"
    and m2: "map snd (tag_pairs structural_tag analyzed) = tags_of analyzed"
    and r: "\<forall>(t, t') \<in> set (tag_pairs structural_tag analyzed). tag_end_rule t t'"
    by simp_all
  have "\<not> (\<exists>t \<in> set (tags_of structural_tag). unlimited (tag_content t) \<and> \<not> has_non_empty (tag_end t))"
  proof
    assume "\<exists>t \<in> set (tags_of structural_tag). unlimited (tag_content t) \<and> \<not> has_non_empty (tag_end t)"
    then obtain t where t: "t \<in> set (tags_of structural_tag)"
      and u: "unlimited (tag_content t)" and n: "\<not> has_non_empty (tag_end t)"
      by blast
    from t m1 have "t \<in> fst ` set (tag_pairs structural_tag analyzed)"
      by (metis set_map)
    then obtain t' where "(t, t') \<in> set (tag_pairs structural_tag analyzed)"
      by auto
    with r have "tag_end_rule t t'"
      by blast
    with u n show False
      by (auto simp: tag_end_rule_def)
  qed
  with Inr m1 m2 r show ?thesis
    by (simp add: tag_end_rule_def)
qed

theorem tag_end_clearing_witness:
  "TagFormat ''<a>'' (AnyTextFormat [] []) ['''']
     \<in> set (tags_of (TagsWithSeparatorFormat [TagFormat ''<a>'' (AnyTextFormat [] []) ['''']] '','' [] False False))
   \<and> (\<exists>err. Analyze 5 (TagsWithSeparatorFormat [TagFormat ''<a>'' (AnyTextFormat [] []) ['''']] '','' [] False False)
         = Inl err)
   \<and> Analyze 5 (TriggeredTagsFormat [''<'']
        [TagFormat ''<a>'' (AnyTextFormat [] []) [''</a>'', ''</A>''],
         TagFormat ''<b>'' (ConstStringFormat ''x'') [''</b>'']] [] [] False False)
     = Inr (TriggeredTagsFormat [''<'']
        [TagFormat ''<a>'' (AnyTextFormat [] [''</a>'', ''</A>'']) [],
         TagFormat ''<b>'' (ConstStringFormat ''x'') [''</b>'']] [] [] False False)
   \<and> tag_pairs (TriggeredTagsFormat [''<'']
        [TagFormat ''<a>'' (AnyTextFormat [] []) [''</a>'', ''</A>''],
         TagFormat ''<b>'' (ConstStringFormat ''x'') [''</b>'']] [] [] False False)
       (TriggeredTagsFormat [''<'']
        [TagFormat ''<a>'' (AnyTextFormat [] [''</a>'', ''</A>'']) [],
         TagFormat ''<b>'' (ConstStringFormat ''x'') [''</b>'']] [] [] False False)
     = [(TagFormat ''<a>'' (AnyTextFormat [] []) [''</a>'', ''</A>''],
         TagFormat ''<a>'' (AnyTextFormat [] [''</a>'', ''</A>'']) []),
        (TagFormat ''<b>'' (ConstStringFormat ''x'') [''</b>''],
         TagFormat ''<b>'' (ConstStringFormat ''x'') [''</b>''])]
   \<and> direct_unlimited (AnyTextFormat [] [''</a>'', ''</A>'']) = [AnyTextFormat [] [''</a>'', ''</A>'']]"
  using tag_end_clearing [of "TagsWithSeparatorFormat [TagFormat ''<a>'' (AnyTextFormat [] []) ['''']] '','' [] False False" 5]
    tag_end_clearing [of "TriggeredTagsFormat [''<'']
        [TagFormat ''<a>'' (AnyTextFormat [] []) [''</a>'', ''</A>''],
         TagFormat ''<b>'' (ConstStringFormat ''x'') [''</b>'']] [] [] False False" 5]
  by (simp add: Analyze_def eval_nat_numeral has_non_empty_def)

section \<open>Parser: speculative inference\<close>

lemma ParseConstStringFormat_variant:
  "ParseConstStringFormat obj = Inr f \<Longrightarrow> variant_of f = VConstString"
  by (auto simp: ParseConstStringFormat_def split: option.splits json_value.splits if_splits)

lemma ParseJSONSchemaFormat_variant:
  "ParseJSONSchemaFormat serialize obj = Inr f \<Longrightarrow> variant_of f = VJSONSchema"
  by (auto simp: ParseJSONSchemaFormat_def split: option.splits json_value.splits)

lemma ParseAnyTextFormat_variant:
  "ParseAnyTextFormat obj = Inr f \<Longrightarrow> variant_of f = VAnyText"
  by (auto simp: ParseAnyTextFormat_def split: option.splits json_value.splits if_splits)

lemma ParseSequenceFormat_variant:
  "ParseSequenceFormat pf obj = Inr f \<Longrightarrow> variant_of f = VSequence"
  by (auto simp: ParseSequenceFormat_def split: option.splits json_value.splits sum.splits if_splits)

lemma ParseOrFormat_variant:
  "ParseOrFormat pf obj = Inr f \<Longrightarrow> variant_of f = VOr"
  by (auto simp: ParseOrFormat_def split: option.splits json_value.splits sum.splits if_splits)

lemma ParseTriggeredTagsFormat_variant:
  "ParseTriggeredTagsFormat pf obj = Inr f \<Longrightarrow> variant_of f = VTriggeredTags"
  unfolding ParseTriggeredTagsFormat_def
  by (auto split: option.splits json_value.splits sum.splits if_splits)

lemma ParseTagsWithSeparatorFormat_variant:
  "ParseTagsWithSeparatorFormat pf obj = Inr f \<Longrightarrow> variant_of f = VTagsWithSeparator"
  unfolding ParseTagsWithSeparatorFormat_def
  by (auto split: option.splits json_value.splits sum.splits if_splits)

lemma ParseFormat_untyped_first_success:
  "ParseFormat_untyped serialize pf obj =
     (case first_success (speculative_attempts serialize pf obj) of
        Some r \<Rightarrow> r
      | None \<Rightarrow> Inl (ISTError (''Invalid format: '' @ serialize (JObject obj))))"
  by (simp add: ParseFormat_untyped_def first_success_def speculative_attempts_def Convert_Tag_def
        split: sum.splits)

lemma ParseFormat_untyped_variant:
  assumes "ParseFormat_untyped serialize pf obj = Inr f"
  shows "variant_of f \<in> {VTag, VConstString, VJSONSchema, VAnyText, VSequence, VOr,
                          VTriggeredTags, VTagsWithSeparator}"
  using assms
    ParseConstStringFormat_variant [of obj f] ParseJSONSchemaFormat_variant [of serialize obj f]
    ParseAnyTextFormat_variant [of obj f] ParseSequenceFormat_variant [of pf obj f]
    ParseOrFormat_variant [of pf obj f] ParseTriggeredTagsFormat_variant [of pf obj f]
    ParseTagsWithSeparatorFormat_variant [of pf obj f]
  by (auto simp: ParseFormat_untyped_def split: sum.splits)

text \<open>
  C7. For an object without a \<open>type\<close> field, a call of \<open>ParseFormat\<close> that the
  recursion guard admits returns the first result that is not an error among the
  variant parsers taken in the order Tag, ConstString, JSONSchema, AnyText, Sequence, Or,
  TriggeredTags, TagsWithSeparator, fails with the "Invalid format" error when all of
  them fail, and never returns a QwenXmlParameter, Grammar or Regex format.
\<close>

theorem parse_format_speculative_order:
  assumes "find_field obj ''type'' = None"
  shows "ParseFormat serialize (Suc d) (JObject obj) =
           (case first_success (speculative_attempts serialize (ParseFormat serialize d) obj) of
              Some r \<Rightarrow> r
            | None \<Rightarrow> Inl (ISTError (''Invalid format: '' @ serialize (JObject obj))))
     \<and> (\<forall>f. ParseFormat serialize (Suc d) (JObject obj) = Inr f \<longrightarrow>
            variant_of f \<notin> {VQwenXmlParameter, VGrammar, VRegex})"
proof -
  have eq: "ParseFormat serialize (Suc d) (JObject obj)
              = ParseFormat_untyped serialize (ParseFormat serialize d) obj"
    using assms by (simp add: ParseFormat_body_def)
  show ?thesis
    unfolding eq
    using ParseFormat_untyped_first_success [of serialize "ParseFormat serialize d" obj]
      ParseFormat_untyped_variant [of serialize "ParseFormat serialize d" obj]
    by auto
qed

theorem parse_format_speculative_order_witness:
  "find_field [(''value'', JString ''hi''), (''excludes'', JArray [])] ''type'' = None
   \<and> ParseFormat (\<lambda>v. []) (Suc 0) (JObject [(''value'', JString ''hi''), (''excludes'', JArray [])])
       = Inr (ConstStringFormat ''hi'')
   \<and> first_success (speculative_attempts (\<lambda>v. []) (ParseFormat (\<lambda>v. []) 0)
         [(''value'', JString ''hi''), (''excludes'', JArray [])]) = Some (Inr (ConstStringFormat ''hi''))"
proof -
  have h: "find_field [(''value'', JString ''hi''), (''excludes'', JArray [])] ''type'' = None"
    by (simp add: find_field_def)
  show ?thesis
    using h parse_format_speculative_order [OF h, of "\<lambda>v. []" 0]
    by (simp add: first_success_def speculative_attempts_def Convert_Tag_def ParseTagFormat_def
          ParseConstStringFormat_def find_field_def)
qed

text \<open>
  C9. An object with neither a \<open>type\<close> nor an \<open>excludes\<close> field is rejected by the
  AnyText parser, so speculative inference returns an AnyText format only when
  \<open>excludes\<close> is present; a typeless object with none of the recognised fields (such as
  the empty object) fails to parse as any format; an object with type \<open>any_text\<close> and
  no \<open>excludes\<close> parses to an AnyText format with no excluded strings.
\<close>

theorem any_text_needs_type_or_excludes:
  "(find_field obj ''type'' = None \<and> find_field obj ''excludes'' = None \<longrightarrow>
      (\<exists>err. ParseAnyTextFormat obj = Inl err))
   \<and> (find_field obj ''type'' = None \<and> variant_of f = VAnyText
        \<and> ParseFormat serialize d (JObject obj) = Inr f \<longrightarrow> find_field obj ''excludes'' \<noteq> None)
   \<and> (find_field obj ''type'' = None \<and> (\<forall>key \<in> set recognized_fields. find_field obj key = None) \<longrightarrow>
        (\<exists>err. ParseFormat serialize d (JObject obj) = Inl err))
   \<and> (\<exists>err. ParseFormat serialize d (JObject []) = Inl err)
   \<and> (find_field obj ''type'' = Some (JString ''any_text'') \<and> find_field obj ''excludes'' = None \<longrightarrow>
        ParseFormat serialize (Suc d) (JObject obj) = Inr (AnyTextFormat [] []))"
proof (intro conjI impI)
  assume "find_field obj ''type'' = None \<and> find_field obj ''excludes'' = None"
  then show "\<exists>err. ParseAnyTextFormat obj = Inl err"
    by (simp add: ParseAnyTextFormat_def)
next
  assume a: "find_field obj ''type'' = None \<and> variant_of f = VAnyText
        \<and> ParseFormat serialize d (JObject obj) = Inr f"
  show "find_field obj ''excludes'' \<noteq> None"
  proof (cases d)
    case 0
    with a show ?thesis by simp
  next
    case (Suc d')
    let ?pf = "ParseFormat serialize d'"
    from a have t: "find_field obj ''type'' = None"
      and v: "variant_of f = VAnyText"
      and p: "ParseFormat serialize d (JObject obj) = Inr f" by simp_all
    have u: "ParseFormat_untyped serialize ?pf obj = Inr f"
      using p unfolding Suc by (simp add: ParseFormat_body_def t)
    have "ParseAnyTextFormat obj = Inr f"
      using u v ParseConstStringFormat_variant [of obj f] ParseJSONSchemaFormat_variant [of serialize obj f]
        ParseSequenceFormat_variant [of ?pf obj f]
        ParseOrFormat_variant [of ?pf obj f] ParseTriggeredTagsFormat_variant [of ?pf obj f]
        ParseTagsWithSeparatorFormat_variant [of ?pf obj f]
      by (auto simp: ParseFormat_untyped_def split: sum.splits)
    then have ok: "\<not> isl (ParseAnyTextFormat obj)" by simp
    show ?thesis
    proof
      assume "find_field obj ''excludes'' = None"
      then have "isl (ParseAnyTextFormat obj)"
        by (simp add: ParseAnyTextFormat_def t)
      with ok show False by simp
    qed
  qed
next
  assume a: "find_field obj ''type'' = None \<and> (\<forall>key \<in> set recognized_fields. find_field obj key = None)"
  show "\<exists>err. ParseFormat serialize d (JObject obj) = Inl err"
  proof (cases d)
    case 0
    then show ?thesis by simp
  next
    case (Suc d')
    from a have t: "find_field obj ''type'' = None"
      and r: "\<forall>key \<in> set recognized_fields. find_field obj key = None" by simp_all
    from r show ?thesis
      unfolding Suc
      by (simp add: t ParseFormat_body_def ParseFormat_untyped_def recognized_fields_def
            ParseTagFormat_def ParseConstStringFormat_def ParseJSONSchemaFormat_def
            ParseAnyTextFormat_def ParseSequenceFormat_def ParseOrFormat_def
            ParseTriggeredTagsFormat_def ParseTagsWithSeparatorFormat_def)
  qed
next
  show "\<exists>err. ParseFormat serialize d (JObject []) = Inl err"
    by (cases d)
      (simp_all add: ParseFormat_body_def ParseFormat_untyped_def find_field_def
            ParseTagFormat_def ParseConstStringFormat_def ParseJSONSchemaFormat_def
            ParseAnyTextFormat_def ParseSequenceFormat_def ParseOrFormat_def
            ParseTriggeredTagsFormat_def ParseTagsWithSeparatorFormat_def)
next
  assume "find_field obj ''type'' = Some (JString ''any_text'') \<and> find_field obj ''excludes'' = None"
  then show "ParseFormat serialize (Suc d) (JObject obj) = Inr (AnyTextFormat [] [])"
    by (simp add: ParseFormat_body_def ParseFormat_typed_def ParseAnyTextFormat_def)
qed

theorem any_text_needs_type_or_excludes_witness:
  "(\<exists>err. ParseAnyTextFormat [(''value'', JString [])] = Inl err)
   \<and> ParseFormat (\<lambda>v. []) 3 (JObject [(''excludes'', JArray [JString ''x''])]) = Inr (AnyTextFormat [''x''] [])
   \<and> (\<exists>err. ParseFormat (\<lambda>v. []) 3 (JObject [(''other'', JNull)]) = Inl err)
   \<and> ParseFormat (\<lambda>v. []) 3 (JObject [(''type'', JString ''any_text'')]) = Inr (AnyTextFormat [] [])"
  using any_text_needs_type_or_excludes [of "[(''value'', JString [])]" "AnyTextFormat [] []" "\<lambda>v. []" 3]
    any_text_needs_type_or_excludes [of "[(''excludes'', JArray [JString ''x''])]" "AnyTextFormat [''x''] []" "\<lambda>v. []" 3]
    any_text_needs_type_or_excludes [of "[(''other'', JNull)]" "AnyTextFormat [] []" "\<lambda>v. []" 3]
    any_text_needs_type_or_excludes [of "[(''type'', JString ''any_text'')]" "AnyTextFormat [] []" "\<lambda>v. []" 2]
  by (simp add: find_field_def recognized_fields_def eval_nat_numeral ParseFormat_body_def
        ParseFormat_untyped_def ParseTagFormat_def ParseConstStringFormat_def
        ParseJSONSchemaFormat_def ParseAnyTextFormat_def)

section \<open>The exclusion automaton on a concrete excluded string\<close>

text \<open>
  General facts about the loops of step 2, used to compute the automaton for the excluded
  string \<open>aab\<close> without unfolding the 256 bytes.
\<close>

lemma find_append_cases:
  "List.find P (xs @ ys) = (case List.find P xs of None \<Rightarrow> List.find P ys | Some x \<Rightarrow> Some x)"
  by (induction xs) auto

lemma foldl_fill_gap:
  "foldl (fill_gap cov) es bs = es @ map (\<lambda>b. FSMEdge b b exclude_start) (filter (\<lambda>b. b \<notin> cov) bs)"
  by (induction bs arbitrary: es) (auto simp: fill_gap_def)

lemma foldl_copy_start_edge:
  "distinct (map edge_min ses) \<Longrightarrow>
   foldl copy_start_edge acc ses
     = (fst acc @ filter (\<lambda>e. edge_min e \<notin> snd acc) ses, snd acc \<union> edge_min ` set ses)"
proof (induction ses arbitrary: acc)
  case Nil
  then show ?case by simp
next
  case (Cons e ses)
  from Cons.prems have d: "distinct (map edge_min ses)" and n: "edge_min e \<notin> edge_min ` set ses"
    by simp_all
  have eq: "filter (\<lambda>e'. edge_min e' \<notin> insert (edge_min e) cov) ses = filter (\<lambda>e'. edge_min e' \<notin> cov) ses"
    for cov
  proof (rule filter_cong [OF refl])
    fix x assume "x \<in> set ses"
    then have "edge_min x \<in> edge_min ` set ses" by (rule imageI)
    with n have "edge_min x \<noteq> edge_min e" by auto
    then show "(edge_min x \<notin> insert (edge_min e) cov) = (edge_min x \<notin> cov)" by simp
  qed
  have step: "foldl copy_start_edge acc (e # ses) = foldl copy_start_edge (copy_start_edge acc e) ses"
    by simp
  show ?case
  proof (cases "edge_min e \<in> snd acc")
    case True
    then have "copy_start_edge acc e = acc" by (simp add: copy_start_edge_def)
    with True show ?thesis
      unfolding step using Cons.IH [OF d, of acc] by auto
  next
    case False
    then have c: "copy_start_edge acc e = (fst acc @ [e], insert (edge_min e) (snd acc))"
      by (simp add: copy_start_edge_def)
    have "fst acc @ [e] @ filter (\<lambda>e'. edge_min e' \<notin> insert (edge_min e) (snd acc)) ses
            = fst acc @ filter (\<lambda>e'. edge_min e' \<notin> snd acc) (e # ses)"
      using False unfolding eq by simp
    then show ?thesis
      unfolding step c using Cons.IH [OF d, of "(fst acc @ [e], insert (edge_min e) (snd acc))"]
      by simp
  qed
qed

lemma add_back_edges_state_start:
  assumes "exclude_start \<notin> set dead"
  shows "add_back_edges_state dead fsm exclude_start
     = fsm[exclude_start := GetEdges fsm exclude_start
         @ map (\<lambda>b. FSMEdge b b exclude_start)
             (filter (\<lambda>b. b \<notin> covered_bytes_of (GetEdges fsm exclude_start)) [0 ..< 256])]"
  using assms by (simp add: add_back_edges_state_def foldl_fill_gap Let_def del: upt_rec_numeral)

lemma add_back_edges_state_other:
  assumes "state \<noteq> exclude_start" and "state \<notin> set dead"
    and "distinct (map edge_min (GetEdges fsm exclude_start))"
    and "set [0 ..< 256] \<subseteq> edge_min ` set (GetEdges fsm exclude_start)"
  shows "add_back_edges_state dead fsm state
     = fsm[state := GetEdges fsm state
         @ filter (\<lambda>e. edge_min e \<notin> covered_bytes_of (GetEdges fsm state)) (GetEdges fsm exclude_start)]"
proof -
  have "filter (\<lambda>b. b \<notin> covered_bytes_of (GetEdges fsm state) \<union> edge_min ` set (GetEdges fsm exclude_start))
          [0 ..< 256] = []"
    using assms(4) unfolding filter_empty_conv by blast
  then show ?thesis
    using assms(1,2)
    by (simp add: add_back_edges_state_def foldl_fill_gap foldl_copy_start_edge [OF assms(3)] Let_def
          del: upt_rec_numeral)
qed

lemma start_edges_distinct:
  "distinct (map edge_min (FSMEdge c c t # map (\<lambda>b. FSMEdge b b t') (filter (\<lambda>b. b \<noteq> c) [0 ..< n])))"
  by (auto simp: comp_def)

lemma start_edges_complete:
  assumes "c < n"
  shows "set [0 ..< n] \<subseteq> edge_min ` set (FSMEdge c c t # map (\<lambda>b. FSMEdge b b t') (filter (\<lambda>b. b \<noteq> c) [0 ..< n]))"
proof
  fix b assume "b \<in> set [0 ..< n]"
  then have "b < n" by simp
  show "b \<in> edge_min ` set (FSMEdge c c t # map (\<lambda>b. FSMEdge b b t') (filter (\<lambda>b. b \<noteq> c) [0 ..< n]))"
  proof (cases "b = c")
    case True
    then show ?thesis by simp
  next
    case False
    with \<open>b < n\<close> have "FSMEdge b b t' \<in> set (map (\<lambda>b. FSMEdge b b t') (filter (\<lambda>b. b \<noteq> c) [0 ..< n]))"
      by simp
    then have "edge_min (FSMEdge b b t') \<in> edge_min ` set (FSMEdge c c t # map (\<lambda>b. FSMEdge b b t') (filter (\<lambda>b. b \<noteq> c) [0 ..< n]))"
      by (intro imageI) simp
    then show ?thesis by simp
  qed
qed

lemma find_single_byte_edges:
  "List.find (\<lambda>edge. edge_min edge \<le> ch \<and> ch \<le> edge_max edge)
      (map (\<lambda>b. FSMEdge b b t) (filter Q [0 ..< n]))
   = (if ch < n \<and> Q ch then Some (FSMEdge ch ch t) else None)"
  by (induction n) (auto simp: find_append_cases split: option.splits)

lemma trie_aab: "build_trie [''aab''] = ([[FSMEdge 97 97 (Suc 0)], [FSMEdge 97 97 2], [FSMEdge 98 98 3], []], [3])"
  by (simp add: build_trie_def trie_insert_def trie_step_def GetNextState_def GetEdges_def AddState_def AddEdge_def)

lemma upt_4: "[0 ..< 4] = [0, Suc 0, Suc (Suc 0), Suc (Suc (Suc 0))]"
  by (simp add: upt_rec eval_nat_numeral)

lemma back_edges_aab:
  "add_back_edges [3] [[FSMEdge 97 97 (Suc 0)], [FSMEdge 97 97 2], [FSMEdge 98 98 3], []]
   = [FSMEdge 97 97 (Suc 0) # map (\<lambda>b. FSMEdge b b 0) (filter (\<lambda>b. b \<noteq> 97) [0 ..< 256]),
      FSMEdge 97 97 2 # map (\<lambda>b. FSMEdge b b 0) (filter (\<lambda>b. b \<noteq> 97) [0 ..< 256]),
      FSMEdge 98 98 3 # FSMEdge 97 97 (Suc 0) # map (\<lambda>b. FSMEdge b b 0) (filter (\<lambda>b. b \<noteq> 97 \<and> b \<noteq> 98) [0 ..< 256]),
      []]"
proof -
  let ?T = "[[FSMEdge 97 97 (Suc 0)], [FSMEdge 97 97 2], [FSMEdge 98 98 3], []]"
  let ?S0 = "FSMEdge 97 97 (Suc 0) # map (\<lambda>b. FSMEdge b b 0) (filter (\<lambda>b. b \<noteq> 97) [0 ..< 256])"
  have s0: "add_back_edges_state [3] ?T 0 = [?S0, [FSMEdge 97 97 2], [FSMEdge 98 98 3], []]"
    using add_back_edges_state_start [of "[3]" ?T]
    by (simp add: exclude_start_def GetEdges_def covered_bytes_of_def del: upt_rec_numeral)
  have d: "distinct (map edge_min ?S0)" by (rule start_edges_distinct)
  have c: "set [0 ..< 256] \<subseteq> edge_min ` set ?S0" by (rule start_edges_complete) simp
  have s1: "add_back_edges_state [3] [?S0, [FSMEdge 97 97 2], [FSMEdge 98 98 3], []] (Suc 0)
      = [?S0, FSMEdge 97 97 2 # map (\<lambda>b. FSMEdge b b 0) (filter (\<lambda>b. b \<noteq> 97) [0 ..< 256]),
         [FSMEdge 98 98 3], []]"
    using add_back_edges_state_other [of "Suc 0" "[3]" "[?S0, [FSMEdge 97 97 2], [FSMEdge 98 98 3], []]"] d c
    by (simp add: exclude_start_def GetEdges_def covered_bytes_of_def filter_map comp_def
          del: upt_rec_numeral set_upt cong: filter_cong)
  have s2: "add_back_edges_state [3] [?S0, FSMEdge 97 97 2 # map (\<lambda>b. FSMEdge b b 0) (filter (\<lambda>b. b \<noteq> 97) [0 ..< 256]),
         [FSMEdge 98 98 3], []] (Suc (Suc 0))
      = [?S0, FSMEdge 97 97 2 # map (\<lambda>b. FSMEdge b b 0) (filter (\<lambda>b. b \<noteq> 97) [0 ..< 256]),
         FSMEdge 98 98 3 # FSMEdge 97 97 (Suc 0) # map (\<lambda>b. FSMEdge b b 0) (filter (\<lambda>b. b \<noteq> 97 \<and> b \<noteq> 98) [0 ..< 256]), []]"
    using add_back_edges_state_other [of "Suc (Suc 0)" "[3]" "[?S0, FSMEdge 97 97 2 # map (\<lambda>b. FSMEdge b b 0) (filter (\<lambda>b. b \<noteq> 97) [0 ..< 256]), [FSMEdge 98 98 3], []]"] d c
    by (simp add: exclude_start_def GetEdges_def covered_bytes_of_def filter_map comp_def
          del: upt_rec_numeral set_upt cong: filter_cong)
  have s3: "add_back_edges_state [3] fsm (Suc (Suc (Suc 0))) = fsm" for fsm
    by (simp add: add_back_edges_state_def)
  show ?thesis
    by (simp add: add_back_edges_def NumStates_def upt_4 s0 s1 s2 s3 del: upt_rec_numeral)
qed

lemma exclude_filter_aab:
  "exclude_filter [''aab''] =
     \<lparr> fsm_of =
         [FSMEdge 97 97 (Suc 0) # map (\<lambda>b. FSMEdge b b 0) (filter (\<lambda>b. b \<noteq> 97) [0 ..< 256]),
          FSMEdge 97 97 2 # map (\<lambda>b. FSMEdge b b 0) (filter (\<lambda>b. b \<noteq> 97) [0 ..< 256]),
          FSMEdge 97 97 (Suc 0) # map (\<lambda>b. FSMEdge b b 0) (filter (\<lambda>b. b \<noteq> 97 \<and> b \<noteq> 98) [0 ..< 256]),
          []],
       start_of = 0, is_end_of = [True, True, True, False], is_dfa_of = True \<rparr>"
  by (simp add: exclude_filter_def trie_aab back_edges_aab remove_dead_edges_def NumStates_def
        exclude_start_def upt_4 filter_map comp_def del: upt_rec_numeral)

text \<open>
  C1, at the failing input. For the excluded string \<open>aab\<close> the exclusion automaton
  built by the converter accepts \<open>aaab\<close>, which contains \<open>aab\<close>: after \<open>aa\<close> the
  third \<open>a\<close> falls back to the copy of the start state's edge (state 1), and the \<open>b\<close>
  that follows leads from state 1 back to the start instead of to the dead state. So the
  automaton does not accept exactly the strings without an excluded substring.
\<close>

theorem exclude_filter_accepts_excluded_substring:
  "accepts (exclude_filter [''aab'']) ''aaab'' \<and> contains_excluded [''aab''] ''aaab''"
  by (simp add: exclude_filter_aab accepts_def GetNextState_def GetEdges_def contains_excluded_def
        find_single_byte_edges del: upt_rec_numeral)

section \<open>Converter: the fingerprint cache\<close>

lemma cache_preserved_refl [simp]: "cache_preserved c c"
  by (simp add: cache_preserved_def)


lemma cache_preserved_builder [simp]:
  "cache_preserved (c \<lparr> grammar_builder := b \<rparr>) c' = cache_preserved c c'"
  "cache_preserved c (c' \<lparr> grammar_builder := b \<rparr>) = cache_preserved c c'"
  by (simp_all add: cache_preserved_def)








text \<open>The definitions to unfold when a conversion is evaluated on a concrete format.\<close>

lemmas converter_eval =
  Convert_def new_converter_def empty_builder_def Compute_def ok_def Let_def
  emit_ConstString_def emit_AnyText_def emit_Tag_def emit_Sequence_def emit_Or_def
  emit_TriggeredTags_def emit_TriggeredTags_one_def emit_TriggeredTags_dispatch_def
  emit_TagsWithSeparator_def emit_TagsWithSeparator_special_def emit_TagsWithSeparator_general_def
  AddTagSequence_def AddEndStr_def AnyText_tag_dispatch_def non_empty_ends_def
  AddRootRuleAndGetGrammar_def separator_matches_end_def
  full_tag_productions_def stripped_tag_productions_def IsPrefix_def
  AddExpr_def AddByteString_def AddEmptyStr_def AddCharacterClass_def AddCharacterClassStar_def
  AddRuleRef_def AddSequence_def AddChoices_def AddTagDispatch_def AddRuleWithHint_def
  AddEmptyRuleWithHint_def UpdateRuleBody_def bool_to_string_def





text \<open>
  C2, at the failing input. The two TagsWithSeparator formats differ in their tags
  (\<open><a>x</a>\<close> against \<open><b>y</b>\<close>) and have the same fingerprint \<open>TS:,:0,0\<close>. The Or of
  the two passes analysis, and its conversion answers the visit of the second from the
  cache with the rule of the first: both alternatives of the \<open>or\<close> rule refer to rule 4,
  and neither \<open><b>\<close> nor \<open>y\<close> occurs in the grammar.
\<close>

theorem fingerprint_collision_reuses_rule:
  "Compute (TagsWithSeparatorFormat [TagFormat ''<a>'' (ConstStringFormat ''x'') [''</a>'']] '','' [] False False)
     = Compute (TagsWithSeparatorFormat [TagFormat ''<b>'' (ConstStringFormat ''y'') [''</b>'']] '','' [] False False)
   \<and> Analyze 5 (OrFormat
       [TagsWithSeparatorFormat [TagFormat ''<a>'' (ConstStringFormat ''x'') [''</a>'']] '','' [] False False,
        TagsWithSeparatorFormat [TagFormat ''<b>'' (ConstStringFormat ''y'') [''</b>'']] '','' [] False False]
       False)
     = Inr (OrFormat
       [TagsWithSeparatorFormat [TagFormat ''<a>'' (ConstStringFormat ''x'') [''</a>'']] '','' [] False False,
        TagsWithSeparatorFormat [TagFormat ''<b>'' (ConstStringFormat ''y'') [''</b>'']] '','' [] False False]
       True)
   \<and> Convert no_collaborators (OrFormat
       [TagsWithSeparatorFormat [TagFormat ''<a>'' (ConstStringFormat ''x'') [''</a>'']] '','' [] False False,
        TagsWithSeparatorFormat [TagFormat ''<b>'' (ConstStringFormat ''y'') [''</b>'']] '','' [] False False]
       True)
     = Inr (\<lparr>grammar_exprs =
         [ByteString ''x'', Sequence [0], Choices [1], ByteString ''<a>'',
          RuleRef 0, ByteString ''</a>'', Sequence [3, 4, 5], Choices [6],
          RuleRef 1, Sequence [8], Choices [9], RuleRef 2, EmptyStr,
          ByteString '','', RuleRef 3, Sequence [13, 11, 14],
          Choices [15, 12], RuleRef 3, Sequence [11, 17], Choices [18, 12],
          RuleRef 4, Sequence [20], RuleRef 4, Sequence [22],
          Choices [21, 23], RuleRef 5, Sequence [25], Choices [26]],
         grammar_rules =
           [(''const_string'', Some 2), (''tag'', Some 7),
            (''tags_with_separator_tags'', Some 10),
            (''tags_with_separator_sub'', Some 16),
            (''tags_with_separator'', Some 19), (''or'', Some 24),
            (''root'', Some 27)]\<rparr>,
      6)"
  by (simp add: Analyze_def eval_nat_numeral has_non_empty_def converter_eval)

section \<open>Converter: triggers of TriggeredTags\<close>












section \<open>Converter: the two forms of TagsWithSeparator\<close>










section \<open>Analyzer and converter: the end strings of AnyText\<close>

lemma any_text_ends_ok_iff_all:
  "(any_text_ends_ok f = (\<forall>(ex, det) \<in> set (any_texts f). det \<noteq> [] \<longrightarrow> non_empty_ends det \<noteq> []))
   \<and> (any_text_ends_ok_tag t = (\<forall>(ex, det) \<in> set (any_texts_tag t). det \<noteq> [] \<longrightarrow> non_empty_ends det \<noteq> []))
   \<and> (any_text_ends_ok_list es = (\<forall>(ex, det) \<in> set (any_texts_list es). det \<noteq> [] \<longrightarrow> non_empty_ends det \<noteq> []))
   \<and> (any_text_ends_ok_tags ts = (\<forall>(ex, det) \<in> set (any_texts_tags ts). det \<noteq> [] \<longrightarrow> non_empty_ends det \<noteq> []))"
  by (rule any_texts_any_texts_tag_any_texts_list_any_texts_tags.induct) auto

lemma any_text_ends_ok_iff:
  "any_text_ends_ok f = (\<forall>(ex, det) \<in> set (any_texts f). det \<noteq> [] \<longrightarrow> non_empty_ends det \<noteq> [])"
  using any_text_ends_ok_iff_all [of f] by blast

lemma Analyze_any_text_ends_ok:
  assumes "Analyze n f = Inr f'"
  shows "any_text_ends_ok f'"
  using assms Visit_any_text(1) [of n "[]" f] by (simp add: Analyze_def)

text \<open>
  C10. When the analysis of a structural tag succeeds, every AnyText of the analysed
  tree whose \<open>detected_end_strs_\<close> is not empty has a non-empty string among them. So
  for such an AnyText the filtered list \<open>non_empty_ends\<close> of the converter is not
  empty, whatever the state of the converter: \<open>VisitSub(AnyTextFormat)\<close> does not take
  the \<open>CheckFailed\<close> branch but returns a rule, whose body is a TagDispatch with
  exactly these strings as its stop strings, at least one of them.
\<close>

theorem analyzed_any_text_has_non_empty_end:
  assumes "Analyze max_recursion_depth structural_tag = Inr analyzed"
    and "(excluded_strs, det) \<in> set (any_texts analyzed)"
    and "det \<noteq> []"
  shows "non_empty_ends det \<noteq> []
     \<and> (\<exists>c' rule_id tag_dispatch.
           Converter_VisitSub ext c (AnyTextFormat excluded_strs det) = Inr (c', rule_id)
           \<and> rule_body (grammar_builder c') rule_id = Some (TagDispatchExpr tag_dispatch)
           \<and> stop_str tag_dispatch = non_empty_ends det
           \<and> stop_str tag_dispatch \<noteq> [])"
proof -
  from assms(1) have "any_text_ends_ok analyzed"
    by (rule Analyze_any_text_ends_ok)
  with assms(2,3) have ne: "non_empty_ends det \<noteq> []"
    by (auto simp: any_text_ends_ok_iff)
  with assms(3) show ?thesis
    by (simp add: ok_def emit_AnyText_def AddTagDispatch_def AddExpr_def AddRuleWithHint_def
        AnyText_tag_dispatch_def rule_body_def nth_append)
qed

theorem analyzed_any_text_has_non_empty_end_witness:
  "Analyze 8 (TagFmt (TagFormat ''<a>'' (AnyTextFormat [''x''] []) ['''', ''</a>'']))
     = Inr (TagFmt (TagFormat ''<a>'' (AnyTextFormat [''x''] ['''', ''</a>'']) []))
   \<and> ([''x''], ['''', ''</a>'']) \<in> set (any_texts (TagFmt (TagFormat ''<a>'' (AnyTextFormat [''x''] ['''', ''</a>'']) [])))
   \<and> non_empty_ends ['''', ''</a>''] = [''</a>'']
   \<and> (\<exists>c' rule_id tag_dispatch.
         Converter_VisitSub no_collaborators new_converter (AnyTextFormat [''x''] ['''', ''</a>'']) = Inr (c', rule_id)
         \<and> rule_body (grammar_builder c') rule_id = Some (TagDispatchExpr tag_dispatch)
         \<and> stop_str tag_dispatch = [''</a>''])"
proof -
  have a: "Analyze 8 (TagFmt (TagFormat ''<a>'' (AnyTextFormat [''x''] []) ['''', ''</a>'']))
     = Inr (TagFmt (TagFormat ''<a>'' (AnyTextFormat [''x''] ['''', ''</a>'']) []))"
    by (simp add: Analyze_def eval_nat_numeral has_non_empty_def)
  have m: "([''x''], ['''', ''</a>'']) \<in> set (any_texts (TagFmt (TagFormat ''<a>'' (AnyTextFormat [''x''] ['''', ''</a>'']) [])))"
    by simp
  have n: "non_empty_ends ['''', ''</a>''] = [''</a>'']"
    by (simp add: non_empty_ends_def)
  from analyzed_any_text_has_non_empty_end [OF a m, of no_collaborators new_converter] a m n
  show ?thesis
    by auto
qed

end
